theory Spec2Isabelle
  imports Complex_Main "HOL-Library.Multiset" "HOL-Library.Product_Lexorder"
begin

section \<open>The VOD recommendation DAG (dags/vod\_rec.py)\<close>

text \<open>
  The DAG has three computing tasks: \<open>data_preprocessing\<close> builds the interaction
  table and splits it, \<open>model_running\<close> defines the class
  \<open>SVDRecommendationModel\<close> and uses it. The tables are pandas frames; a frame
  is modelled as the list of its rows, its \<open>RangeIndex\<close> label being the position.
  Library routines (pandas, scikit-learn, surprise) are modelled by what they compute
  on the arguments the source passes.
\<close>

subsection \<open>Values\<close>

text \<open>
  A float64 cell: a finite number, an infinity or NaN. pandas writes a missing value
  as NaN, so \<open>NaN\<close> is also "no rating".
\<close>

datatype float64 = Fin real | PosInf | NegInf | NaN

text \<open>The Python exceptions the code can raise.\<close>

datatype error = KeyError | ValueError

fun isna :: "float64 \<Rightarrow> bool" where
  "isna NaN = True"
| "isna _ = False"

text \<open>
  \<open>vod_log['use_tms'] / vod_log['disp_rtm_sec']\<close> on integer columns: numpy's true
  division. A zero divisor raises nothing: it gives an infinity, or NaN for 0/0.
\<close>

definition true_divide :: "int \<Rightarrow> int \<Rightarrow> float64" where
  "true_divide a b =
     (if b \<noteq> 0 then Fin (real_of_int a / real_of_int b)
      else if 0 < a then PosInf
      else if a < 0 then NegInf
      else NaN)"

text \<open>The maximum of two cells that skips NaN, as \<open>groupby(...).max()\<close> does.\<close>

fun fmax :: "float64 \<Rightarrow> float64 \<Rightarrow> float64" where
  "fmax NaN y = y"
| "fmax x NaN = x"
| "fmax PosInf y = PosInf"
| "fmax x PosInf = PosInf"
| "fmax NegInf y = y"
| "fmax x NegInf = x"
| "fmax (Fin a) (Fin b) = Fin (max a b)"

text \<open>IEEE addition, for sums and means of cells.\<close>

fun fadd :: "float64 \<Rightarrow> float64 \<Rightarrow> float64" where
  "fadd NaN y = NaN"
| "fadd x NaN = NaN"
| "fadd PosInf NegInf = NaN"
| "fadd NegInf PosInf = NaN"
| "fadd PosInf y = PosInf"
| "fadd x PosInf = PosInf"
| "fadd NegInf y = NegInf"
| "fadd x NegInf = NegInf"
| "fadd (Fin a) (Fin b) = Fin (a + b)"

text \<open>\<open>np.mean\<close> of a list: NaN for the empty list, the sum over the length otherwise.\<close>

definition np_mean :: "float64 list \<Rightarrow> float64" where
  "np_mean xs =
     (if xs = [] then NaN
      else (case foldr fadd xs (Fin 0) of
              Fin s \<Rightarrow> Fin (s / real (length xs))
            | v \<Rightarrow> v))"

subsection \<open>Raw tables\<close>

text \<open>
  A row of \<open>vods_sumut\<close> and a row of \<open>contlog\<close>, with the columns the
  computation reads. The projection of line 56 keeps \<open>program_name\<close>,
  \<open>episode_num\<close>, \<open>log_dt\<close> and \<open>count_watch\<close> too; nothing reads them.
\<close>

record vod_row =
  vod_subsr_id :: int
  vod_program_id :: int
  vod_e_bool :: int
  use_tms :: int
  disp_rtm_sec :: int

record cont_row =
  cont_subsr_id :: int
  cont_program_id :: int
  cont_e_bool :: int

text \<open>A row of \<open>rating\<close>, \<open>train\<close> and \<open>test\<close>.\<close>

record interaction =
  subsr_id :: int
  program_id :: int
  use_tms_ratio :: float64

definition vod_key :: "vod_row \<Rightarrow> int \<times> int" where
  "vod_key r = (vod_subsr_id r, vod_program_id r)"

definition cont_key :: "cont_row \<Rightarrow> int \<times> int" where
  "cont_key r = (cont_subsr_id r, cont_program_id r)"

definition pair_of :: "interaction \<Rightarrow> int \<times> int" where
  "pair_of r = (subsr_id r, program_id r)"

subsection \<open>data\_preprocessing, lines 55 to 66: the interaction table\<close>

text \<open>Line 61: the ratio of one watch event.\<close>

definition ratio_of :: "vod_row \<Rightarrow> float64" where
  "ratio_of r = true_divide (use_tms r) (disp_rtm_sec r)"

text \<open>
  Line 62: \<open>groupby(['subsr_id', 'program_id'])[['use_tms_ratio']].max().reset_index()\<close>:
  one row per key, keys in ascending order, the NaN-skipping maximum of the group.
\<close>

definition group_max :: "vod_row list \<Rightarrow> int \<times> int \<Rightarrow> float64" where
  "group_max vod_log k = foldr fmax (map ratio_of (filter (\<lambda>r. vod_key r = k) vod_log)) NaN"

definition groupby_max :: "vod_row list \<Rightarrow> ((int \<times> int) \<times> float64) list" where
  "groupby_max vod_log =
     map (\<lambda>k. (k, group_max vod_log k)) (sort (remdups (map vod_key vod_log)))"

text \<open>\<open>drop_duplicates()\<close> keeps the first occurrence of each row, in order.\<close>

definition drop_duplicates :: "'a list \<Rightarrow> 'a list" where
  "drop_duplicates xs = rev (remdups (rev xs))"

text \<open>
  Line 66: \<open>rating.merge(use_tms_ratio, how='left')\<close> joins on the two shared
  columns. The keys of the right table are distinct, so every left row yields one row:
  the matching ratio, or NaN where there is none.
\<close>

definition merge_left :: "(int \<times> int) list \<Rightarrow> ((int \<times> int) \<times> float64) list \<Rightarrow> interaction list" where
  "merge_left pairs ratios =
     map (\<lambda>k. \<lparr>subsr_id = fst k, program_id = snd k,
                use_tms_ratio = (case map_of ratios k of Some v \<Rightarrow> v | None \<Rightarrow> NaN)\<rparr>) pairs"

definition interaction_table :: "vod_row list \<Rightarrow> cont_row list \<Rightarrow> interaction list" where
  "interaction_table vod_log0 cont_log0 =
     (let vod_log = filter (\<lambda>r. vod_e_bool r = 0) vod_log0;
          cont_log = filter (\<lambda>r. cont_e_bool r = 0) cont_log0;
          ratios = groupby_max vod_log;
          rating = drop_duplicates (map vod_key vod_log @ map cont_key cont_log)
      in merge_left rating ratios)"

subsection \<open>data\_preprocessing, lines 69 to 71: the split\<close>

text \<open>
  \<open>rating.dropna()\<close> keeps the rows with a rating, each with its label.
\<close>

definition dropna :: "(nat \<times> interaction) list \<Rightarrow> (nat \<times> interaction) list" where
  "dropna df = filter (\<lambda>(l, r). \<not> isna (use_tms_ratio r)) df"

text \<open>
  Line 69: \<open>train_test_split(df, test_size=0.25, random_state=0)\<close> of scikit-learn.
  Its \<open>_validate_shuffle_split\<close> computes the two sizes,
  \<^verbatim>\<open>
  n_test = ceil(test_size * n_samples)
  n_train = n_samples - n_test
  if n_train == 0:
      raise ValueError("With n_samples={}, test_size={} and train_size={}, the "
                       "resulting train set will be empty. ...")
  \<close>
  and \<open>ShuffleSplit\<close> draws the rows:
  \<^verbatim>\<open>
  permutation = rng.permutation(n_samples)
  ind_test = permutation[:n_test]
  ind_train = permutation[n_test:(n_test + n_train)]
  \<close>
  The rows keep their labels. The permutation that the generator seeded with 0 draws
  is the parameter \<open>permutation\<close>.
\<close>

definition train_test_split ::
  "(nat \<Rightarrow> nat list) \<Rightarrow> 'a list \<Rightarrow> error + ('a list \<times> 'a list)" where
  "train_test_split permutation df =
     (let n_samples = length df;
          n_test = nat \<lceil>(1 / 4) * real n_samples\<rceil>;
          n_train = n_samples - n_test
      in if n_train = 0 then Inl ValueError
         else (let p = permutation n_samples;
                   ind_test = take n_test p;
                   ind_train = take n_train (drop n_test p)
               in Inr (map (\<lambda>i. df ! i) ind_train, map (\<lambda>i. df ! i) ind_test)))"

text \<open>
  Line 71: \<open>train.loc[test.index, 'use_tms_ratio'] = np.nan\<close>. A label that is not
  in the frame raises \<open>KeyError\<close>.
\<close>

definition loc_set_nan :: "nat list \<Rightarrow> interaction list \<Rightarrow> error + interaction list" where
  "loc_set_nan labels df =
     (if \<exists>l \<in> set labels. length df \<le> l then Inl KeyError
      else Inr (map (\<lambda>(l, r). if l \<in> set labels then r\<lparr>use_tms_ratio := NaN\<rparr> else r)
                  (enumerate 0 df)))"

definition split_rating ::
  "(nat \<Rightarrow> nat list) \<Rightarrow> interaction list
     \<Rightarrow> error + (interaction list \<times> (nat \<times> interaction) list)" where
  "split_rating permutation rating =
     (case train_test_split permutation (dropna (enumerate 0 rating)) of
        Inl e \<Rightarrow> Inl e
      | Inr (train0, test) \<Rightarrow>
          (case loc_set_nan (map fst test) rating of
             Inl e \<Rightarrow> Inl e
           | Inr train \<Rightarrow> Inr (train, test)))"

definition data_preprocessing ::
  "(nat \<Rightarrow> nat list) \<Rightarrow> vod_row list \<Rightarrow> cont_row list
     \<Rightarrow> error + (interaction list \<times> (nat \<times> interaction) list)" where
  "data_preprocessing permutation vod_log0 cont_log0 =
     split_rating permutation (interaction_table vod_log0 cont_log0)"

subsection \<open>model\_running: the class SVDRecommendationModel\<close>

type_synonym raw_rating = "int \<times> int \<times> float64"

text \<open>
  \<open>Dataset.load_from_df\<close> reads the three columns of each row, in row order;
  \<open>build_full_trainset\<close> keeps every rating.
\<close>

definition load_from_df :: "interaction list \<Rightarrow> raw_rating list" where
  "load_from_df df = map (\<lambda>r. (subsr_id r, program_id r, use_tms_ratio r)) df"

text \<open>
  \<open>build_full_trainset().build_testset()\<close> lists the ratings user by user, users
  in order of first appearance.
\<close>

definition build_testset :: "raw_rating list \<Rightarrow> raw_rating list" where
  "build_testset raw =
     concat (map (\<lambda>u. filter (\<lambda>t. fst t = u) raw) (drop_duplicates (map fst raw)))"

text \<open>Lines 92 to 99.\<close>

definition dataset ::
  "interaction list \<Rightarrow> (nat \<times> interaction) list \<Rightarrow> raw_rating list \<times> raw_rating list" where
  "dataset train test =
     (load_from_df (map snd (dropna (enumerate 0 train))),
      build_testset (load_from_df (map snd test)))"

text \<open>
  Lines 88 to 90: \<open>train.pivot(columns='program_id', index='subsr_id',
  values='use_tms_ratio')\<close>. The row labels are the subscribers and the column labels
  the programs, each distinct and ascending; a cell with no row in \<open>train\<close> is NaN;
  a repeated (subscriber, program) pair raises \<open>ValueError\<close>.
\<close>

record score_mat =
  sm_index :: "int list"
  sm_columns :: "int list"
  sm_cell :: "int \<Rightarrow> int \<Rightarrow> float64"

definition pivot :: "interaction list \<Rightarrow> error + score_mat" where
  "pivot train =
     (if \<not> distinct (map pair_of train) then Inl ValueError
      else Inr \<lparr>sm_index = sort (remdups (map subsr_id train)),
                sm_columns = sort (remdups (map program_id train)),
                sm_cell = (\<lambda>u i. case find (\<lambda>r. pair_of r = (u, i)) train of
                                    Some r \<Rightarrow> use_tms_ratio r
                                  | None \<Rightarrow> NaN)\<rparr>)"

text \<open>
  The fitted \<open>SVD\<close> object of the surprise library: the training set it was fitted
  on and the learned biases and factors, here indexed by raw id. The stochastic
  gradient descent that learns them (line 103) is the parameter \<open>sgd\<close> of \<open>fit\<close>.
\<close>

record svd =
  trainset :: "raw_rating list"
  bu :: "int \<Rightarrow> real"
  bi :: "int \<Rightarrow> real"
  pu :: "int \<Rightarrow> real list"
  qi :: "int \<Rightarrow> real list"

type_synonym learned =
  "(int \<Rightarrow> real) \<times> (int \<Rightarrow> real) \<times> (int \<Rightarrow> real list) \<times> (int \<Rightarrow> real list)"

definition fit :: "(raw_rating list \<Rightarrow> learned) \<Rightarrow> raw_rating list \<Rightarrow> svd" where
  "fit sgd train_data =
     (case sgd train_data of
        (b_u, b_i, p_u, q_i) \<Rightarrow>
          \<lparr>trainset = train_data, bu = b_u, bi = b_i, pu = p_u, qi = q_i\<rparr>)"

definition global_mean :: "svd \<Rightarrow> float64" where
  "global_mean m = np_mean (map (\<lambda>t. snd (snd t)) (trainset m))"

definition knows_user :: "svd \<Rightarrow> int \<Rightarrow> bool" where
  "knows_user m u = (u \<in> set (map fst (trainset m)))"

definition knows_item :: "svd \<Rightarrow> int \<Rightarrow> bool" where
  "knows_item m i = (i \<in> set (map (\<lambda>t. fst (snd t)) (trainset m)))"

definition dot :: "real list \<Rightarrow> real list \<Rightarrow> real" where
  "dot xs ys = sum_list (map2 (*) xs ys)"

text \<open>
  Line 107 calls \<open>predict\<close> of the fitted object. Its \<open>SVD.estimate\<close>, with the
  default \<open>biased=True\<close> of line 102, is
  \<^verbatim>\<open>
  known_user = self.trainset.knows_user(u)
  known_item = self.trainset.knows_item(i)
  est = self.trainset.global_mean
  if known_user:
      est += self.bu[u]
  if known_item:
      est += self.bi[i]
  if known_user and known_item:
      est += np.dot(self.qi[i], self.pu[u])
  \<close>
  where \<open>global_mean\<close> is \<open>np.mean\<close> of the ratings of the training set.
\<close>

definition estimate :: "svd \<Rightarrow> int \<Rightarrow> int \<Rightarrow> float64" where
  "estimate m u i =
     (let known_user = knows_user m u;
          known_item = knows_item m i;
          est0 = global_mean m;
          est1 = (if known_user then fadd est0 (Fin (bu m u)) else est0);
          est2 = (if known_item then fadd est1 (Fin (bi m i)) else est1)
      in if known_user \<and> known_item then fadd est2 (Fin (dot (qi m i) (pu m u))) else est2)"

text \<open>
  \<open>AlgoBase.predict\<close>, called with its default \<open>clip=True\<close>, then clips the
  estimate to the reader's \<open>rating_scale=(0, 1)\<close> of line 93:
  \<^verbatim>\<open>
  lower_bound, higher_bound = self.trainset.rating_scale
  est = min(higher_bound, est)
  est = max(lower_bound, est)
  \<close>
  Python's \<open>min\<close> and \<open>max\<close> keep their first argument unless the second
  compares smaller (greater), so NaN becomes 1, and the result is always a number
  of the scale.
\<close>

definition clip :: "float64 \<Rightarrow> real" where
  "clip est = (case est of Fin x \<Rightarrow> max 0 (min 1 x) | PosInf \<Rightarrow> 1 | NegInf \<Rightarrow> 0 | NaN \<Rightarrow> 1)"

record svd_recommendation_model =
  train_data :: "raw_rating list"
  test_data :: "raw_rating list"
  score_matrix :: score_mat
  model :: svd

text \<open>Lines 83 to 86.\<close>

definition init ::
  "(raw_rating list \<Rightarrow> learned) \<Rightarrow> interaction list \<Rightarrow> (nat \<times> interaction) list
     \<Rightarrow> error + svd_recommendation_model" where
  "init sgd train test =
     (case dataset train test of
        (train_d, test_d) \<Rightarrow>
          (case pivot train of
             Inl e \<Rightarrow> Inl e
           | Inr sm \<Rightarrow>
               Inr \<lparr>train_data = train_d, test_data = test_d, score_matrix = sm,
                    model = fit sgd train_d\<rparr>))"

text \<open>Lines 106 and 107.\<close>

definition predict :: "svd_recommendation_model \<Rightarrow> int \<Rightarrow> int \<Rightarrow> real" where
  "predict self u i = clip (estimate (model self) u i)"

text \<open>
  Line 114: \<open>sort_values(by='pred_rating', ascending=False)\<close>. For a descending
  order pandas (\<open>nargsort\<close>) reverses the column, sorts it ascending and reverses
  the outcome:
  \<^verbatim>\<open>
  if not ascending:
      non_nans = non_nans[::-1]
      non_nan_idx = non_nan_idx[::-1]
  indexer = non_nan_idx[non_nans.argsort(kind=kind)]
  if not ascending:
      indexer = indexer[::-1]
  \<close>
  The scores are the clipped predictions, so none is NaN. The default
  \<open>kind='quicksort'\<close> of numpy's \<open>argsort\<close> is not a stable sort: it returns the
  positions in ascending order of their keys and leaves equal keys in an order of
  its own, which depends on the length of the array and on the sort routine of the
  processor. That order is the parameter \<open>tie_order\<close>: among the positions of equal
  keys, the one with the smaller \<open>tie_order\<close> comes first. Every sorting permutation
  is the \<open>argsort\<close> of some tie order, and every tie order gives one.
\<close>

type_synonym tie_order = "real list \<Rightarrow> nat \<Rightarrow> nat"

definition argsort :: "tie_order \<Rightarrow> real list \<Rightarrow> nat list" where
  "argsort tie_order vs = sort_key (\<lambda>j. (vs ! j, tie_order vs j)) [0..<length vs]"

definition sort_values_desc :: "tie_order \<Rightarrow> (int \<times> real) list \<Rightarrow> (int \<times> real) list" where
  "sort_values_desc tie_order result =
     (let non_nans = rev (map snd result);
          non_nan_idx = rev [0..<length result];
          indexer = rev (map (\<lambda>j. non_nan_idx ! j) (argsort tie_order non_nans))
      in map (\<lambda>i. result ! i) indexer)"

text \<open>The Python slice \<open>xs[:N]\<close>; a negative \<open>N\<close> counts from the end.\<close>

definition slice_to :: "int \<Rightarrow> 'a list \<Rightarrow> 'a list" where
  "slice_to N xs = (if 0 \<le> N then take (nat N) xs else take (length xs - nat (- N)) xs)"

text \<open>\<open>score_matrix.loc[subsr_id].dropna().index.tolist()\<close>, for a known row.\<close>

definition user_rated :: "score_mat \<Rightarrow> int \<Rightarrow> int list" where
  "user_rated sm u = filter (\<lambda>i. \<not> isna (sm_cell sm u i)) (sm_columns sm)"

text \<open>\<open>score_matrix.loc[subsr_id].drop(user_rated).index.tolist()\<close>.\<close>

definition user_unrated :: "score_mat \<Rightarrow> int \<Rightarrow> int list" where
  "user_unrated sm u = filter (\<lambda>i. i \<notin> set (user_rated sm u)) (sm_columns sm)"

text \<open>
  Lines 110 to 114, for a subscriber who is a row of the matrix. The frame is the
  list of its (program\_id, pred\_rating) rows.
\<close>

definition top_N_of ::
  "tie_order \<Rightarrow> svd_recommendation_model \<Rightarrow> int \<Rightarrow> int \<Rightarrow> (int \<times> real) list" where
  "top_N_of tie_order self u N =
     (let unrated = user_unrated (score_matrix self) u;
          predictions = map (predict self u) unrated;
          result = zip unrated predictions
      in slice_to N (sort_values_desc tie_order result))"

text \<open>
  Lines 109 to 115. \<open>.loc\<close> raises \<open>KeyError\<close> for a label that is not in the
  index.
\<close>

definition recommend ::
  "tie_order \<Rightarrow> svd_recommendation_model \<Rightarrow> int \<Rightarrow> int \<Rightarrow> error + (int \<times> real) list" where
  "recommend tie_order self u N =
     (if u \<notin> set (sm_index (score_matrix self)) then Inl KeyError
      else Inr (top_N_of tie_order self u N))"

text \<open>Lines 117 to 122.\<close>

definition precision_recall_at_k :: "int list \<Rightarrow> int list \<Rightarrow> real \<times> real" where
  "precision_recall_at_k target prediction =
     (let num_hit = card (set prediction \<inter> set target);
          precision = (if 0 < length prediction then real num_hit / real (length prediction) else 0);
          recall = (if 0 < length target then real num_hit / real (length target) else 0)
      in (precision, recall))"

text \<open>
  Lines 124 to 135. The loop runs over \<open>test_data['subsr_id'].unique()\<close>, the
  subscribers in order of first appearance, and stops at the first exception.
\<close>

definition targets_of :: "(nat \<times> interaction) list \<Rightarrow> int \<Rightarrow> int list" where
  "targets_of test u = map (\<lambda>p. program_id (snd p)) (filter (\<lambda>p. subsr_id (snd p) = u) test)"

fun evaluate_loop ::
  "tie_order \<Rightarrow> svd_recommendation_model \<Rightarrow> (nat \<times> interaction) list \<Rightarrow> int \<Rightarrow> int list
     \<Rightarrow> error + (real list \<times> real list)" where
  "evaluate_loop tie_order self test N [] = Inr ([], [])"
| "evaluate_loop tie_order self test N (u # us) =
     (case recommend tie_order self u N of
        Inl e \<Rightarrow> Inl e
      | Inr top_N \<Rightarrow>
          (case precision_recall_at_k (targets_of test u) (map fst top_N) of
             (precision, recall) \<Rightarrow>
               (case evaluate_loop tie_order self test N us of
                  Inl e \<Rightarrow> Inl e
                | Inr (precisions, recalls) \<Rightarrow> Inr (precision # precisions, recall # recalls))))"

definition evaluate ::
  "tie_order \<Rightarrow> svd_recommendation_model \<Rightarrow> (nat \<times> interaction) list \<Rightarrow> int
     \<Rightarrow> error + (float64 \<times> float64)" where
  "evaluate tie_order self test N =
     (case evaluate_loop tie_order self test N
             (drop_duplicates (map (\<lambda>p. subsr_id (snd p)) test)) of
        Inl e \<Rightarrow> Inl e
      | Inr (precisions, recalls) \<Rightarrow>
          Inr (np_mean (map Fin precisions), np_mean (map Fin recalls)))"

text \<open>
  Lines 137 to 141. \<open>model.test\<close> predicts every rating of the test set, and
  \<open>accuracy.rmse\<close> of surprise is
  \<^verbatim>\<open>
  if not predictions:
      raise ValueError("Prediction list is empty.")
  mse = np.mean([float((true_r - est) ** 2) for (_, _, true_r, est, _) in predictions])
  rmse_ = np.sqrt(mse)
  \<close>
\<close>

fun sq_err :: "float64 \<Rightarrow> real \<Rightarrow> float64" where
  "sq_err (Fin r) est = Fin ((r - est)\<^sup>2)"
| "sq_err PosInf est = PosInf"
| "sq_err NegInf est = PosInf"
| "sq_err NaN est = NaN"

fun np_sqrt :: "float64 \<Rightarrow> float64" where
  "np_sqrt (Fin x) = (if x < 0 then NaN else Fin (sqrt x))"
| "np_sqrt PosInf = PosInf"
| "np_sqrt NegInf = NaN"
| "np_sqrt NaN = NaN"

definition calculate_rmse :: "svd_recommendation_model \<Rightarrow> error + float64" where
  "calculate_rmse self =
     (let predictions = map (\<lambda>t. (snd (snd t), predict self (fst t) (fst (snd t)))) (test_data self)
      in if predictions = [] then Inl ValueError
         else Inr (np_sqrt (np_mean (map (\<lambda>p. sq_err (fst p) (snd p)) predictions))))"

text \<open>Lines 143 to 153: the task itself, which pushes the list for subscriber 0.\<close>

definition model_running ::
  "tie_order \<Rightarrow> (raw_rating list \<Rightarrow> learned) \<Rightarrow> interaction list \<Rightarrow> (nat \<times> interaction) list
     \<Rightarrow> error + (int \<times> real) list" where
  "model_running tie_order sgd train test =
     (case init sgd train test of
        Inl e \<Rightarrow> Inl e
      | Inr svd_model \<Rightarrow>
          (case evaluate tie_order svd_model test 10 of
             Inl e \<Rightarrow> Inl e
           | Inr pr \<Rightarrow> recommend tie_order svd_model 0 10))"

subsection \<open>A small run\<close>

text \<open>
  Two subscribers and three programs. The watch log rates four pairs, the content
  log adds the pair (2, 3) with no rating; the generator's permutation is taken to
  be the reversed range.
\<close>

definition ex_vod_log :: "vod_row list" where
  "ex_vod_log =
     [\<lparr>vod_subsr_id = 1, vod_program_id = 1, vod_e_bool = 0, use_tms = 54, disp_rtm_sec = 60\<rparr>,
      \<lparr>vod_subsr_id = 1, vod_program_id = 2, vod_e_bool = 0, use_tms = 12, disp_rtm_sec = 60\<rparr>,
      \<lparr>vod_subsr_id = 2, vod_program_id = 1, vod_e_bool = 0, use_tms = 30, disp_rtm_sec = 60\<rparr>,
      \<lparr>vod_subsr_id = 1, vod_program_id = 3, vod_e_bool = 0, use_tms = 48, disp_rtm_sec = 60\<rparr>]"

definition ex_cont_log :: "cont_row list" where
  "ex_cont_log = [\<lparr>cont_subsr_id = 2, cont_program_id = 3, cont_e_bool = 0\<rparr>]"

definition ex_permutation :: "nat \<Rightarrow> nat list" where
  "ex_permutation n = rev [0..<n]"

definition ex_rating :: "interaction list" where
  "ex_rating =
     [\<lparr>subsr_id = 1, program_id = 1, use_tms_ratio = Fin (9 / 10)\<rparr>,
      \<lparr>subsr_id = 1, program_id = 2, use_tms_ratio = Fin (1 / 5)\<rparr>,
      \<lparr>subsr_id = 2, program_id = 1, use_tms_ratio = Fin (1 / 2)\<rparr>,
      \<lparr>subsr_id = 1, program_id = 3, use_tms_ratio = Fin (4 / 5)\<rparr>,
      \<lparr>subsr_id = 2, program_id = 3, use_tms_ratio = NaN\<rparr>]"

definition ex_train :: "interaction list" where
  "ex_train =
     [\<lparr>subsr_id = 1, program_id = 1, use_tms_ratio = Fin (9 / 10)\<rparr>,
      \<lparr>subsr_id = 1, program_id = 2, use_tms_ratio = Fin (1 / 5)\<rparr>,
      \<lparr>subsr_id = 2, program_id = 1, use_tms_ratio = Fin (1 / 2)\<rparr>,
      \<lparr>subsr_id = 1, program_id = 3, use_tms_ratio = NaN\<rparr>,
      \<lparr>subsr_id = 2, program_id = 3, use_tms_ratio = NaN\<rparr>]"

definition ex_test :: "(nat \<times> interaction) list" where
  "ex_test = [(3, \<lparr>subsr_id = 1, program_id = 3, use_tms_ratio = Fin (4 / 5)\<rparr>)]"

text \<open>Learned parameters with one non-zero item bias, that of program 1.\<close>

definition ex_sgd :: "raw_rating list \<Rightarrow> learned" where
  "ex_sgd ts = (\<lambda>u. 0, \<lambda>i. if i = 1 then 1 / 4 else 0, \<lambda>u. [1 / 2, 0], \<lambda>i. [0, 1 / 2])"

definition ex_trainset :: "raw_rating list" where
  "ex_trainset = [(1, 1, Fin (9 / 10)), (1, 2, Fin (1 / 5)), (2, 1, Fin (1 / 2))]"

definition ex_matrix :: score_mat where
  "ex_matrix =
     \<lparr>sm_index = [1, 2], sm_columns = [1, 2, 3],
      sm_cell = (\<lambda>u i. case find (\<lambda>r. pair_of r = (u, i)) ex_train of
                          Some r \<Rightarrow> use_tms_ratio r
                        | None \<Rightarrow> NaN)\<rparr>"

definition ex_model :: svd_recommendation_model where
  "ex_model =
     \<lparr>train_data = ex_trainset, test_data = [(1, 3, Fin (4 / 5))],
      score_matrix = ex_matrix, model = fit ex_sgd ex_trainset\<rparr>"

text \<open>The same model built with an empty test frame.\<close>

definition ex_model_no_test :: svd_recommendation_model where
  "ex_model_no_test =
     \<lparr>train_data = ex_trainset, test_data = [],
      score_matrix = ex_matrix, model = fit ex_sgd ex_trainset\<rparr>"

text \<open>
  Two tie orders. The first keeps equal keys in the order of their positions. The
  second puts the positions 14, 15 and 0 last among equal keys.
\<close>

definition ex_keep_order :: tie_order where
  "ex_keep_order vs j = j"

definition ex_tie_order :: tie_order where
  "ex_tie_order vs j =
     (if j = 14 then length vs
      else if j = 15 then length vs + 1
      else if j = 0 then length vs + 2
      else j)"

text \<open>
  A second run, for the evaluator: two subscribers and three programs, every pair
  rated. In the first test frame subscriber 1 has two rows and subscriber 2 one; in
  the second both have the programs 2 and 3; in the third both have program 3 only.
  \<open>train\<close> masks the four pairs that the frames hold.
\<close>

definition ex_train2 :: "interaction list" where
  "ex_train2 =
     [\<lparr>subsr_id = 1, program_id = 1, use_tms_ratio = Fin (9 / 10)\<rparr>,
      \<lparr>subsr_id = 1, program_id = 2, use_tms_ratio = NaN\<rparr>,
      \<lparr>subsr_id = 1, program_id = 3, use_tms_ratio = NaN\<rparr>,
      \<lparr>subsr_id = 2, program_id = 1, use_tms_ratio = Fin (1 / 2)\<rparr>,
      \<lparr>subsr_id = 2, program_id = 2, use_tms_ratio = NaN\<rparr>,
      \<lparr>subsr_id = 2, program_id = 3, use_tms_ratio = NaN\<rparr>]"

definition ex_test2 :: "(nat \<times> interaction) list" where
  "ex_test2 =
     [(1, \<lparr>subsr_id = 1, program_id = 2, use_tms_ratio = Fin (4 / 5)\<rparr>),
      (4, \<lparr>subsr_id = 2, program_id = 2, use_tms_ratio = Fin (3 / 5)\<rparr>),
      (2, \<lparr>subsr_id = 1, program_id = 3, use_tms_ratio = Fin (7 / 10)\<rparr>)]"

definition ex_test2_all :: "(nat \<times> interaction) list" where
  "ex_test2_all =
     [(1, \<lparr>subsr_id = 1, program_id = 2, use_tms_ratio = Fin (4 / 5)\<rparr>),
      (4, \<lparr>subsr_id = 2, program_id = 2, use_tms_ratio = Fin (3 / 5)\<rparr>),
      (2, \<lparr>subsr_id = 1, program_id = 3, use_tms_ratio = Fin (7 / 10)\<rparr>),
      (5, \<lparr>subsr_id = 2, program_id = 3, use_tms_ratio = Fin (2 / 5)\<rparr>)]"

definition ex_test2_last :: "(nat \<times> interaction) list" where
  "ex_test2_last =
     [(2, \<lparr>subsr_id = 1, program_id = 3, use_tms_ratio = Fin (7 / 10)\<rparr>),
      (5, \<lparr>subsr_id = 2, program_id = 3, use_tms_ratio = Fin (2 / 5)\<rparr>)]"

definition ex_trainset2 :: "raw_rating list" where
  "ex_trainset2 = [(1, 1, Fin (9 / 10)), (2, 1, Fin (1 / 2))]"

definition ex_matrix2 :: score_mat where
  "ex_matrix2 =
     \<lparr>sm_index = [1, 2], sm_columns = [1, 2, 3],
      sm_cell = (\<lambda>u i. case find (\<lambda>r. pair_of r = (u, i)) ex_train2 of
                          Some r \<Rightarrow> use_tms_ratio r
                        | None \<Rightarrow> NaN)\<rparr>"

definition ex_model2 :: svd_recommendation_model where
  "ex_model2 =
     \<lparr>train_data = ex_trainset2,
      test_data = [(1, 2, Fin (4 / 5)), (1, 3, Fin (7 / 10)), (2, 2, Fin (3 / 5))],
      score_matrix = ex_matrix2, model = fit ex_sgd ex_trainset2\<rparr>"

text \<open>
  A third run, for the order of equal scores: subscriber 1 has rated program 66 and
  has a row without a rating for each of the programs 1 to 65, none of which the
  model has seen, so that all 65 candidates get the same prediction.
\<close>

definition ex_train_ties :: "interaction list" where
  "ex_train_ties =
     map (\<lambda>i. \<lparr>subsr_id = 1, program_id = i, use_tms_ratio = NaN\<rparr>) [1..65]
     @ [\<lparr>subsr_id = 1, program_id = 66, use_tms_ratio = Fin (1 / 2)\<rparr>]"

definition ex_matrix_ties :: score_mat where
  "ex_matrix_ties =
     \<lparr>sm_index = [1], sm_columns = [1..66],
      sm_cell = (\<lambda>u i. case find (\<lambda>r. pair_of r = (u, i)) ex_train_ties of
                          Some r \<Rightarrow> use_tms_ratio r
                        | None \<Rightarrow> NaN)\<rparr>"

definition ex_model_ties :: svd_recommendation_model where
  "ex_model_ties =
     \<lparr>train_data = [(1, 66, Fin (1 / 2))], test_data = [],
      score_matrix = ex_matrix_ties, model = fit ex_sgd [(1, 66, Fin (1 / 2))]\<rparr>"

text \<open>A watch log whose first event has a display runtime of 0.\<close>

definition ex_vod_log_zero :: "vod_row list" where
  "ex_vod_log_zero =
     [\<lparr>vod_subsr_id = 1, vod_program_id = 10, vod_e_bool = 0, use_tms = 30, disp_rtm_sec = 0\<rparr>,
      \<lparr>vod_subsr_id = 1, vod_program_id = 11, vod_e_bool = 0, use_tms = 30, disp_rtm_sec = 60\<rparr>,
      \<lparr>vod_subsr_id = 2, vod_program_id = 10, vod_e_bool = 0, use_tms = 45, disp_rtm_sec = 60\<rparr>]"

section \<open>Properties\<close>

subsection \<open>Auxiliary facts\<close>

lemma n_test_eq: "nat \<lceil>(1 / 4) * real n\<rceil> = (n + 3) div 4"
proof -
  have "\<lceil>(1 / 4) * real n\<rceil> = \<lceil>real_of_int (int n) / real_of_int 4\<rceil>" by simp
  also have "\<dots> = - ((- int n) div 4)" by (simp only: ceiling_divide_eq_div)
  finally show ?thesis by (simp; linarith)
qed

lemma set_drop_duplicates [simp]: "set (drop_duplicates xs) = set xs"
  by (simp add: drop_duplicates_def)

lemma distinct_drop_duplicates [simp]: "distinct (drop_duplicates xs)"
  by (simp add: drop_duplicates_def)

lemma pivot_Inr:
  assumes "pivot train = Inr sm"
  shows "distinct (map pair_of train)"
    and "sm_index sm = sort (remdups (map subsr_id train))"
    and "sm_columns sm = sort (remdups (map program_id train))"
  using assms by (auto simp: pivot_def split: if_splits)

lemma pivot_columns: "pivot train = Inr sm \<Longrightarrow> distinct (sm_columns sm) \<and> sorted (sm_columns sm)"
  by (simp add: pivot_Inr(3))


lemma mset_argsort: "mset (argsort t vs) = mset [0..<length vs]"
  by (simp add: argsort_def)

lemma set_argsort: "set (argsort t vs) = {..<length vs}"
  using mset_argsort[of t vs, THEN arg_cong[where f=set_mset]] by (simp add: atLeast0LessThan)

lemma sorted_argsort: "sorted (map (\<lambda>j. vs ! j) (argsort t vs))"
proof -
  have "sorted (map (\<lambda>j. (vs ! j, t vs j)) (argsort t vs))"
    unfolding argsort_def by (rule sorted_sort_key)
  then have "sorted_wrt (\<lambda>a b. (vs ! a, t vs a) \<le> (vs ! b, t vs b)) (argsort t vs)"
    by (simp only: sorted_map)
  then have "sorted_wrt (\<lambda>a b. vs ! a \<le> vs ! b) (argsort t vs)"
    by (rule sorted_wrt_mono_rel[rotated]) (auto simp: less_eq_prod_def)
  then show ?thesis by (simp only: sorted_map)
qed

lemma sort_values_desc_eq:
  "sort_values_desc t xs = rev (map (\<lambda>j. rev xs ! j) (argsort t (rev (map snd xs))))"
proof -
  have "map (\<lambda>i. xs ! i) (map (\<lambda>j. rev [0..<length xs] ! j) (argsort t (rev (map snd xs))))
      = map (\<lambda>j. rev xs ! j) (argsort t (rev (map snd xs)))"
    unfolding map_map
  proof (rule map_cong[OF refl])
    fix j assume "j \<in> set (argsort t (rev (map snd xs)))"
    then have j: "j < length xs" by (simp add: set_argsort)
    then show "((\<lambda>i. xs ! i) \<circ> (\<lambda>j. rev [0..<length xs] ! j)) j = rev xs ! j"
      by (simp add: rev_nth)
  qed
  then show ?thesis
    by (simp add: sort_values_desc_def Let_def rev_map)
qed

lemma mset_map_nth_perm:
  assumes "mset p = mset [0..<length ys]"
  shows "mset (map (\<lambda>j. ys ! j) p) = mset ys"
proof -
  have "mset (map (\<lambda>j. ys ! j) p) = image_mset (\<lambda>j. ys ! j) (mset p)" by simp
  also have "\<dots> = image_mset (\<lambda>j. ys ! j) (mset [0..<length ys])" by (simp only: assms)
  also have "\<dots> = mset (map (\<lambda>j. ys ! j) [0..<length ys])" by simp
  also have "\<dots> = mset ys" by (simp only: map_nth)
  finally show ?thesis .
qed

lemma mset_sort_values_desc: "mset (sort_values_desc t xs) = mset xs"
proof -
  have "mset (argsort t (rev (map snd xs))) = mset [0..<length (rev xs)]"
    by (simp add: mset_argsort)
  then have "mset (map (\<lambda>j. rev xs ! j) (argsort t (rev (map snd xs)))) = mset (rev xs)"
    by (rule mset_map_nth_perm)
  then show ?thesis by (simp add: sort_values_desc_eq)
qed

lemma set_sort_values_desc [simp]: "set (sort_values_desc t xs) = set xs"
  by (metis mset_sort_values_desc set_mset_mset)

lemma length_sort_values_desc [simp]: "length (sort_values_desc t xs) = length xs"
  by (metis mset_sort_values_desc size_mset)

lemma descending_sort_values_desc:
  "sorted_wrt (\<lambda>a b. snd b \<le> snd a) (sort_values_desc t xs)"
proof -
  let ?vs = "rev (map snd xs)"
  let ?p = "argsort t ?vs"
  have "map snd (map (\<lambda>j. rev xs ! j) ?p) = map (\<lambda>j. ?vs ! j) ?p"
    unfolding map_map
  proof (rule map_cong[OF refl])
    fix j assume "j \<in> set ?p"
    then have "j < length (rev xs)" by (simp add: set_argsort)
    then show "(snd \<circ> (\<lambda>j. rev xs ! j)) j = ?vs ! j"
      by (simp add: rev_nth)
  qed
  then have "sorted (map snd (map (\<lambda>j. rev xs ! j) ?p))"
    by (simp only: sorted_argsort)
  then have "sorted_wrt (\<lambda>a b. snd a \<le> snd b) (map (\<lambda>j. rev xs ! j) ?p)"
    by (simp only: sorted_map)
  then show ?thesis
    by (simp add: sort_values_desc_eq sorted_wrt_rev)
qed

text \<open>Every sorting permutation is the \<open>argsort\<close> of some tie order.\<close>

lemma filter_inj_singleton:
  assumes "distinct xs" and "k \<in> set xs" and "inj_on f (set xs)"
  shows "filter (\<lambda>x. f k = f x) xs = [k]"
proof -
  have "filter (\<lambda>x. f k = f x) xs = filter (\<lambda>x. x = k) xs"
    using assms(2,3) by (intro filter_cong refl) (auto simp: inj_on_def)
  also have "\<dots> = [k]"
    using assms(1,2) by (induction xs) (auto simp: filter_empty_conv)
  finally show ?thesis .
qed

lemma argsort_complete:
  assumes perm: "mset p = mset [0..<length vs]"
    and srt: "sorted (map (\<lambda>j. vs ! j) p)"
  shows "\<exists>t. argsort t vs = p"
proof -
  define pos where "pos = the_inv_into {..<length p} (\<lambda>i. p ! i)"
  define f where "f = (\<lambda>j. (vs ! j, pos j))"
  have dist: "distinct p" using perm by (metis distinct_upt mset_eq_imp_distinct_iff)
  have sets: "set p = set [0..<length vs]" using perm by (metis set_mset_mset)
  have inj: "inj_on (\<lambda>i. p ! i) {..<length p}"
    using dist by (auto simp: inj_on_def nth_eq_iff_index_eq)
  have pos_nth: "pos (p ! i) = i" if "i < length p" for i
    unfolding pos_def using inj that by (simp add: the_inv_into_f_f)
  have inj_f: "inj_on f (set p)"
  proof (rule inj_onI)
    fix a b assume "a \<in> set p" "b \<in> set p" "f a = f b"
    then obtain i i' where "i < length p" "p ! i = a" "i' < length p" "p ! i' = b"
      by (auto simp: in_set_conv_nth)
    with \<open>f a = f b\<close> pos_nth show "a = b" by (auto simp: f_def)
  qed
  have "sort_key f [0..<length vs] = p"
  proof (rule properties_for_sort_key)
    show "mset p = mset [0..<length vs]" by (rule perm)
    show "filter (\<lambda>x. f k = f x) p = filter (\<lambda>x. f k = f x) [0..<length vs]" if "k \<in> set p" for k
    proof -
      have "filter (\<lambda>x. f k = f x) p = [k]"
        using dist that inj_f by (rule filter_inj_singleton)
      moreover have "filter (\<lambda>x. f k = f x) [0..<length vs] = [k]"
        using that inj_f unfolding sets by (intro filter_inj_singleton) simp_all
      ultimately show ?thesis by simp
    qed
    have "f (p ! i) \<le> f (p ! j)" if ij: "i < j" "j < length p" for i j
    proof -
      from srt have "vs ! (p ! i) \<le> vs ! (p ! j)"
        using ij by (simp add: sorted_map sorted_wrt_iff_nth_less)
      then show ?thesis
        using ij pos_nth by (simp add: f_def less_eq_prod_def)
    qed
    then show "sorted (map f p)"
      by (simp add: sorted_map sorted_wrt_iff_nth_less)
  qed
  then have "argsort (\<lambda>vs. pos) vs = p" by (simp add: argsort_def f_def)
  then show ?thesis by blast
qed

lemma sorted_wrt_slice_to: "sorted_wrt R xs \<Longrightarrow> sorted_wrt R (slice_to N xs)"
  by (simp add: slice_to_def)

lemma set_slice_to: "set (slice_to N xs) \<subseteq> set xs"
  by (simp add: slice_to_def set_take_subset)

lemma train_test_split_small:
  "length df < 2 \<Longrightarrow> train_test_split permutation df = Inl ValueError"
proof -
  assume "length df < 2"
  then have "length df - (length df + 3) div 4 = 0" by linarith
  then show ?thesis unfolding train_test_split_def Let_def n_test_eq by simp
qed

lemma train_test_split_large:
  assumes "2 \<le> length df"
  shows "train_test_split permutation df =
     Inr (map (\<lambda>i. df ! i) (take (length df - (length df + 3) div 4)
                                 (drop ((length df + 3) div 4) (permutation (length df)))),
          map (\<lambda>i. df ! i) (take ((length df + 3) div 4) (permutation (length df))))"
proof -
  from assms have "length df - (length df + 3) div 4 \<noteq> 0" by linarith
  then show ?thesis unfolding train_test_split_def Let_def n_test_eq by simp
qed

lemma perm_props:
  assumes "mset p = mset [0..<n]"
  shows "set p = {..<n}" and "distinct p" and "length p = n"
proof -
  from assms have "set_mset (mset p) = set_mset (mset [0..<n])" by simp
  then show "set p = {..<n}" by (simp add: atLeast0LessThan)
  from assms show "distinct p" by (metis distinct_upt mset_eq_imp_distinct_iff)
  from assms have "size (mset p) = size (mset [0..<n])" by simp
  then show "length p = n" by simp
qed

lemma fst_dropna_enumerate:
  "(l, r) \<in> set (dropna (enumerate 0 rating)) \<longleftrightarrow>
     l < length rating \<and> r = rating ! l \<and> \<not> isna (use_tms_ratio r)"
  by (auto simp: dropna_def in_set_enumerate_eq)

lemma distinct_fst_dropna: "distinct (map fst (dropna (enumerate 0 rating)))"
  by (simp add: dropna_def distinct_map_filter)

lemma distinct_dropna: "distinct (dropna (enumerate 0 rating))"
  by (simp add: dropna_def)

lemma test_rows:
  assumes perm: "mset p = mset [0..<length df]"
    and dist: "distinct df"
  shows "set (map (\<lambda>i. df ! i) (take k p)) \<subseteq> set df"
    and "distinct (map (\<lambda>i. df ! i) (take k p))"
    and "k \<le> length df \<Longrightarrow> length (map (\<lambda>i. df ! i) (take k p)) = k"
proof -
  note pp = perm_props[OF perm]
  have sub: "set (take k p) \<subseteq> {..<length df}"
    using set_take_subset[of k p] pp(1) by simp
  then show "set (map (\<lambda>i. df ! i) (take k p)) \<subseteq> set df" by auto
  have "inj_on (\<lambda>i. df ! i) {..<length df}"
    using dist by (auto simp: inj_on_def nth_eq_iff_index_eq)
  then have "inj_on (\<lambda>i. df ! i) (set (take k p))" using sub by (rule inj_on_subset)
  moreover have "distinct (take k p)" using pp(2) by simp
  ultimately show "distinct (map (\<lambda>i. df ! i) (take k p))" by (simp add: distinct_map)
  show "k \<le> length df \<Longrightarrow> length (map (\<lambda>i. df ! i) (take k p)) = k"
    using pp(3) by simp
qed

lemma loc_set_nan_ok:
  assumes "\<forall>l \<in> set labels. l < length df"
  shows "loc_set_nan labels df =
     Inr (map (\<lambda>(l, r). if l \<in> set labels then r\<lparr>use_tms_ratio := NaN\<rparr> else r) (enumerate 0 df))"
  using assms by (auto simp: loc_set_nan_def)

lemma enumerate_masked:
  "enumerate 0 (map (\<lambda>(l, r). if l \<in> L then r\<lparr>use_tms_ratio := NaN\<rparr> else r) (enumerate 0 df))
     = map (\<lambda>(l, r). (l, if l \<in> L then r\<lparr>use_tms_ratio := NaN\<rparr> else r)) (enumerate 0 df)"
  by (rule nth_equalityI) (simp_all add: nth_enumerate_eq)

lemma dropna_masked:
  "set (dropna (map (\<lambda>(l, r). (l, if l \<in> L then r\<lparr>use_tms_ratio := NaN\<rparr> else r)) (enumerate 0 df)))
     = {p \<in> set (dropna (enumerate 0 df)). fst p \<notin> L}"
  by (force simp: dropna_def image_iff split: if_splits)


lemma split_rating_Inr:
  assumes perm: "mset (permutation (length (dropna (enumerate 0 rating))))
                   = mset [0..<length (dropna (enumerate 0 rating))]"
    and two: "2 \<le> length (dropna (enumerate 0 rating))"
  defines "test \<equiv> map (\<lambda>i. dropna (enumerate 0 rating) ! i)
                     (take ((length (dropna (enumerate 0 rating)) + 3) div 4)
                        (permutation (length (dropna (enumerate 0 rating)))))"
  defines "train \<equiv> map (\<lambda>(l, r). if l \<in> set (map fst test) then r\<lparr>use_tms_ratio := NaN\<rparr> else r)
                      (enumerate 0 rating)"
  shows "split_rating permutation rating = Inr (train, test)"
    and "set test \<subseteq> set (dropna (enumerate 0 rating))"
    and "distinct test"
    and "length test = (length (dropna (enumerate 0 rating)) + 3) div 4"
proof -
  let ?df = "dropna (enumerate 0 rating)"
  have d: "distinct ?df" by (rule distinct_dropna)
  show sub: "set test \<subseteq> set ?df"
    unfolding test_def by (rule test_rows(1)[OF perm d])
  show "distinct test"
    unfolding test_def by (rule test_rows(2)[OF perm d])
  have "(length ?df + 3) div 4 \<le> length ?df" using two by linarith
  then show "length test = (length ?df + 3) div 4"
    unfolding test_def by (rule test_rows(3)[OF perm d])
  have "\<forall>l \<in> set (map fst test). l < length rating"
    using sub by (auto simp: fst_dropna_enumerate)
  then have "loc_set_nan (map fst test) rating = Inr train"
    unfolding train_def by (rule loc_set_nan_ok)
  then show "split_rating permutation rating = Inr (train, test)"
    by (simp add: split_rating_def train_test_split_large[OF two] test_def)
qed

lemma pair_of_merge_left: "map pair_of (merge_left pairs ratios) = pairs"
  by (simp add: merge_left_def pair_of_def comp_def)

lemma distinct_interaction_table:
  "distinct (map pair_of (interaction_table vod_log0 cont_log0))"
  by (simp add: interaction_table_def Let_def pair_of_merge_left)

lemma split_rating_Inr_large:
  assumes "split_rating permutation rating = Inr (train, test)"
  shows "2 \<le> length (dropna (enumerate 0 rating))"
proof (rule ccontr)
  assume "\<not> 2 \<le> length (dropna (enumerate 0 rating))"
  then have "length (dropna (enumerate 0 rating)) < 2" by simp
  then have "split_rating permutation rating = Inl ValueError"
    by (simp add: split_rating_def train_test_split_small)
  with assms show False by simp
qed

lemma masked_ids:
  "map pair_of (map (\<lambda>(l, r). if l \<in> L then r\<lparr>use_tms_ratio := NaN\<rparr> else r) (enumerate 0 df))
     = map pair_of df"
  by (rule nth_equalityI) (simp_all add: nth_enumerate_eq pair_of_def)

lemma map_subsr_id_pair_of: "map subsr_id xs = map fst (map pair_of xs)"
  by (simp add: pair_of_def comp_def)

lemma evaluate_loop_known:
  assumes "\<forall>u \<in> set us. u \<in> set (sm_index (score_matrix self))"
  shows "evaluate_loop t self test N us =
     Inr (map (\<lambda>u. fst (precision_recall_at_k (targets_of test u) (map fst (top_N_of t self u N)))) us,
          map (\<lambda>u. snd (precision_recall_at_k (targets_of test u) (map fst (top_N_of t self u N)))) us)"
  using assms
proof (induction us)
  case Nil
  then show ?case by simp
next
  case (Cons u us)
  then show ?case by (simp add: recommend_def split: prod.splits)
qed

lemma fmax_PosInf_left [simp]: "fmax PosInf y = PosInf"
  by (cases y) simp_all

lemma fmax_PosInf_right [simp]: "fmax x PosInf = PosInf"
  by (cases x) simp_all

lemma foldr_fmax_PosInf: "PosInf \<in> set xs \<Longrightarrow> foldr fmax xs NaN = PosInf"
  by (induction xs) auto

lemma map_of_groupby_max:
  "k \<in> set (map vod_key vod_log) \<Longrightarrow> map_of (groupby_max vod_log) k = Some (group_max vod_log k)"
  by (simp add: groupby_max_def map_of_map_restrict)

lemma foldr_fadd_Fin: "foldr fadd (map Fin xs) (Fin 0) = Fin (sum_list xs)"
  by (induction xs) simp_all

lemma np_mean_Fin: "xs \<noteq> [] \<Longrightarrow> np_mean (map Fin xs) = Fin (sum_list xs / real (length xs))"
  by (simp add: np_mean_def foldr_fadd_Fin)

lemma dot_commute: "dot xs ys = dot ys xs"
proof -
  have "map2 (*) xs ys = map2 (*) ys xs"
    by (induction xs ys rule: list_induct2') (simp_all add: mult.commute)
  then show ?thesis by (simp add: dot_def)
qed

lemma clip_range: "0 \<le> clip est \<and> clip est \<le> 1"
  by (cases est) (simp_all add: clip_def)

lemma mset_filter_split:
  "u \<notin> set us \<Longrightarrow>
   mset (filter (\<lambda>t. f t = u) xs) + mset (filter (\<lambda>t. f t \<in> set us) xs)
     = mset (filter (\<lambda>t. f t \<in> set (u # us)) xs)"
  by (induction xs) auto

lemma mset_concat_groups:
  "distinct us \<Longrightarrow>
   mset (concat (map (\<lambda>u. filter (\<lambda>t. f t = u) xs) us)) = mset (filter (\<lambda>t. f t \<in> set us) xs)"
proof (induction us)
  case Nil
  then show ?case by simp
next
  case (Cons u us)
  then have "mset (concat (map (\<lambda>u. filter (\<lambda>t. f t = u) xs) (u # us)))
      = mset (filter (\<lambda>t. f t = u) xs) + mset (filter (\<lambda>t. f t \<in> set us) xs)"
    by simp
  also have "\<dots> = mset (filter (\<lambda>t. f t \<in> set (u # us)) xs)"
    using Cons.prems by (intro mset_filter_split) simp
  finally show ?case .
qed

lemma mset_build_testset: "mset (build_testset raw) = mset raw"
proof -
  have "mset (build_testset raw) = mset (filter (\<lambda>t. fst t \<in> set (drop_duplicates (map fst raw))) raw)"
    unfolding build_testset_def by (rule mset_concat_groups) simp
  also have "\<dots> = mset raw" by simp
  finally show ?thesis .
qed

lemma init_test_data:
  "init sgd train test = Inr self \<Longrightarrow> test_data self = build_testset (load_from_df (map snd test))"
  by (auto simp: init_def dataset_def split: sum.splits)

lemma sum_list_build_testset:
  fixes h :: "raw_rating \<Rightarrow> real"
  shows "sum_list (map h (build_testset raw)) = sum_list (map h raw)"
proof -
  have "sum_list (map h (build_testset raw)) = sum_mset (image_mset h (mset (build_testset raw)))"
    by (metis mset_map sum_mset_sum_list)
  also have "\<dots> = sum_mset (image_mset h (mset raw))" by (simp only: mset_build_testset)
  also have "\<dots> = sum_list (map h raw)" by (metis mset_map sum_mset_sum_list)
  finally show ?thesis .
qed

lemma length_build_testset: "length (build_testset raw) = length raw"
  by (metis mset_build_testset size_mset)

lemma set_build_testset: "set (build_testset raw) = set raw"
  by (metis mset_build_testset set_mset_mset)

lemma num_hit_le:
  "card (set prediction \<inter> set target) \<le> length prediction"
  "card (set prediction \<inter> set target) \<le> length target"
proof -
  have "card (set prediction \<inter> set target) \<le> card (set prediction)"
    by (rule card_mono) simp_all
  also have "\<dots> \<le> length prediction" by (rule card_length)
  finally show "card (set prediction \<inter> set target) \<le> length prediction" .
  have "card (set prediction \<inter> set target) \<le> card (set target)"
    by (rule card_mono) simp_all
  also have "\<dots> \<le> length target" by (rule card_length)
  finally show "card (set prediction \<inter> set target) \<le> length target" .
qed

lemma precision_recall_range:
  "0 \<le> fst (precision_recall_at_k target prediction)"
  "fst (precision_recall_at_k target prediction) \<le> 1"
  "0 \<le> snd (precision_recall_at_k target prediction)"
  "snd (precision_recall_at_k target prediction) \<le> 1"
  using num_hit_le[of prediction target]
  by (simp_all add: precision_recall_at_k_def Let_def divide_le_eq)

lemma precision_recall_disjoint:
  "set prediction \<inter> set target = {} \<Longrightarrow> precision_recall_at_k target prediction = (0, 0)"
  by (simp add: precision_recall_at_k_def)

lemma precision_recall_equal:
  assumes "set prediction = set target" "distinct prediction" "distinct target" "target \<noteq> []"
  shows "precision_recall_at_k target prediction = (1, 1)"
proof -
  from assms(1,4) have ne: "prediction \<noteq> []" by auto
  have "set prediction \<inter> set target = set prediction" using assms(1) by simp
  then have "card (set prediction \<inter> set target) = length prediction"
    using assms(2) by (simp only: distinct_card)
  moreover have "set prediction \<inter> set target = set target" using assms(1) by simp
  then have "card (set prediction \<inter> set target) = length target"
    using assms(3) by (simp only: distinct_card)
  ultimately show ?thesis
    using ne assms(4) by (simp add: precision_recall_at_k_def Let_def)
qed

lemma mean_range:
  fixes xs :: "real list"
  assumes "xs \<noteq> []" "\<forall>x \<in> set xs. 0 \<le> x \<and> x \<le> 1"
  shows "0 \<le> sum_list xs / real (length xs)" "sum_list xs / real (length xs) \<le> 1"
proof -
  have "0 \<le> sum_list xs" using assms(2) by (simp add: sum_list_nonneg)
  then show "0 \<le> sum_list xs / real (length xs)" by simp
  have "sum_list xs \<le> real (length xs)"
    using assms(2) by (induction xs) auto
  then show "sum_list xs / real (length xs) \<le> 1"
    using assms(1) by (simp add: divide_le_eq)
qed

lemma mean_const:
  fixes xs :: "real list"
  assumes "xs \<noteq> []" "\<forall>x \<in> set xs. x = c"
  shows "sum_list xs / real (length xs) = c"
proof -
  have "sum_list xs = real (length xs) * c"
    using assms(2) by (induction xs) (auto simp: algebra_simps)
  then show ?thesis using assms(1) by simp
qed

lemma distinct_top_N_of:
  assumes "pivot train = Inr (score_matrix self)"
  shows "distinct (map fst (top_N_of t self u N))"
proof -
  let ?un = "user_unrated (score_matrix self) u"
  let ?res = "zip ?un (map (predict self u) ?un)"
  have "distinct ?un" using pivot_columns[OF assms] by (simp add: user_unrated_def)
  then have "distinct (map fst ?res)" by (simp only: map_fst_zip length_map)
  moreover have "mset (map fst (sort_values_desc t ?res)) = mset (map fst ?res)"
    by (simp only: mset_map mset_sort_values_desc)
  ultimately have "distinct (map fst (sort_values_desc t ?res))"
    by (metis mset_eq_imp_distinct_iff)
  then show ?thesis
    by (simp add: top_N_of_def Let_def slice_to_def take_map[symmetric] distinct_take)
qed

lemma targets_nonempty:
  "u \<in> set (map (\<lambda>p. subsr_id (snd p)) test) \<Longrightarrow> targets_of test u \<noteq> []"
  by (auto simp: targets_of_def filter_empty_conv)

subsection \<open>The small run, evaluated\<close>

lemma ex_table: "interaction_table ex_vod_log ex_cont_log = ex_rating"
  by (simp add: interaction_table_def ex_vod_log_def ex_cont_log_def ex_rating_def
      vod_key_def cont_key_def drop_duplicates_def merge_left_def groupby_max_def group_max_def
      ratio_of_def true_divide_def)

lemma ex_dropna_length: "length (dropna (enumerate 0 ex_rating)) = 4"
  by (simp add: ex_rating_def dropna_def)

lemma ex_split: "split_rating ex_permutation ex_rating = Inr (ex_train, ex_test)"
  apply (simp add: split_rating_def dropna_def train_test_split_def ex_rating_def
      ex_permutation_def)
  apply (simp add: loc_set_nan_def ex_train_def ex_test_def upt_rec)
  done

lemma ex_pivot: "pivot ex_train = Inr ex_matrix"
  by (simp add: pivot_def ex_train_def ex_matrix_def pair_of_def)

lemma ex_score_matrix: "pivot ex_train = Inr (score_matrix ex_model)"
  by (simp add: ex_pivot ex_model_def)

lemma ex_dataset: "dataset ex_train ex_test = (ex_trainset, [(1, 3, Fin (4 / 5))])"
  by (simp add: dataset_def ex_train_def ex_test_def dropna_def load_from_df_def
      build_testset_def drop_duplicates_def ex_trainset_def)

lemma ex_init: "init ex_sgd ex_train ex_test = Inr ex_model"
  by (simp add: init_def ex_dataset ex_pivot ex_model_def)

lemma ex_index: "sm_index (score_matrix ex_model) = [1, 2]"
  by (simp add: ex_model_def ex_matrix_def)

lemma ex_zero: "data_preprocessing ex_permutation ex_vod_log_zero [] =
   Inr ([\<lparr>subsr_id = 1, program_id = 10, use_tms_ratio = PosInf\<rparr>,
         \<lparr>subsr_id = 1, program_id = 11, use_tms_ratio = Fin (1 / 2)\<rparr>,
         \<lparr>subsr_id = 2, program_id = 10, use_tms_ratio = NaN\<rparr>],
        [(2, \<lparr>subsr_id = 2, program_id = 10, use_tms_ratio = Fin (3 / 4)\<rparr>)])"
  apply (simp add: data_preprocessing_def interaction_table_def ex_vod_log_zero_def
      vod_key_def cont_key_def drop_duplicates_def merge_left_def groupby_max_def group_max_def
      ratio_of_def true_divide_def)
  apply (simp add: split_rating_def dropna_def train_test_split_def ex_permutation_def)
  apply (simp add: loc_set_nan_def upt_rec)
  done

lemma ex_run: "data_preprocessing ex_permutation ex_vod_log ex_cont_log = Inr (ex_train, ex_test)"
  by (simp add: data_preprocessing_def ex_table ex_split)

lemma ex_permutation_perm: "mset (ex_permutation n) = mset [0..<n]"
  by (simp add: ex_permutation_def)

lemma ex_global_mean: "global_mean (model ex_model) = Fin (8 / 15)"
  by (simp add: global_mean_def ex_model_def fit_def ex_sgd_def ex_trainset_def np_mean_def)

lemma ex_knows: "\<not> knows_user (model ex_model) 9" "knows_item (model ex_model) 1"
  "knows_user (model ex_model) 1" "\<not> knows_item (model ex_model) 3"
  by (simp_all add: knows_user_def knows_item_def ex_model_def fit_def ex_sgd_def ex_trainset_def)

lemma ex_bi: "bi (model ex_model) 1 = 1 / 4" "bu (model ex_model) 1 = 0"
  "dot (pu (model ex_model) 1) (qi (model ex_model) 1) = 0"
  by (simp_all add: ex_model_def fit_def ex_sgd_def dot_def)

lemma ex_dataset_no_test: "dataset ex_train [] = (ex_trainset, [])"
  by (simp add: dataset_def ex_train_def dropna_def load_from_df_def build_testset_def
      drop_duplicates_def ex_trainset_def)

lemma ex_init_no_test: "init ex_sgd ex_train [] = Inr ex_model_no_test"
  by (simp add: init_def ex_dataset_no_test ex_pivot ex_model_no_test_def)

lemma ex_predict_1_3: "predict ex_model 1 3 = 8 / 15"
  by (simp add: predict_def estimate_def ex_global_mean ex_knows ex_bi clip_def)

lemma ex_top_10: "top_N_of ex_keep_order ex_model 1 10 = [(3, 8 / 15)]"
  by (simp add: top_N_of_def ex_model_def ex_matrix_def user_unrated_def
        user_rated_def ex_train_def pair_of_def predict_def estimate_def knows_user_def knows_item_def fit_def
        ex_sgd_def ex_trainset_def global_mean_def np_mean_def dot_def clip_def
        sort_values_desc_def argsort_def slice_to_def)

lemma ex_top_2_10: "top_N_of ex_keep_order ex_model 2 10 = [(2, 8 / 15), (3, 8 / 15)]"
  by (simp add: top_N_of_def ex_model_def ex_matrix_def user_unrated_def
        user_rated_def ex_train_def pair_of_def predict_def estimate_def knows_user_def knows_item_def fit_def
        ex_sgd_def ex_trainset_def global_mean_def np_mean_def dot_def clip_def
        sort_values_desc_def argsort_def ex_keep_order_def less_eq_prod_def slice_to_def)

lemma ex_pivot2: "pivot ex_train2 = Inr (score_matrix ex_model2)"
  by (simp add: pivot_def ex_train2_def ex_model2_def ex_matrix2_def pair_of_def)

lemma ex_index2: "sm_index (score_matrix ex_model2) = [1, 2]"
  by (simp add: ex_model2_def ex_matrix2_def)

lemma ex_unrated2:
  "user_unrated (score_matrix ex_model2) 1 = [2, 3]"
  "user_unrated (score_matrix ex_model2) 2 = [2, 3]"
  by (simp_all add: ex_model2_def ex_matrix2_def user_unrated_def user_rated_def ex_train2_def
      pair_of_def)

lemma ex_predict2:
  "predict ex_model2 1 2 = 7 / 10" "predict ex_model2 1 3 = 7 / 10"
  "predict ex_model2 2 2 = 7 / 10" "predict ex_model2 2 3 = 7 / 10"
  by (simp_all add: predict_def estimate_def knows_user_def knows_item_def global_mean_def
      np_mean_def ex_model2_def fit_def ex_sgd_def ex_trainset2_def dot_def clip_def)

lemma ex_top2:
  "top_N_of ex_keep_order ex_model2 1 10 = [(2, 7 / 10), (3, 7 / 10)]"
  "top_N_of ex_keep_order ex_model2 2 10 = [(2, 7 / 10), (3, 7 / 10)]"
  "top_N_of ex_keep_order ex_model2 1 1 = [(2, 7 / 10)]"
  "top_N_of ex_keep_order ex_model2 2 1 = [(2, 7 / 10)]"
  by (simp_all add: top_N_of_def ex_unrated2 ex_predict2 sort_values_desc_def argsort_def
      ex_keep_order_def less_eq_prod_def slice_to_def)

lemma ex_targets2:
  "targets_of ex_test2 1 = [2, 3]" "targets_of ex_test2 2 = [2]"
  "targets_of ex_test2_all 1 = [2, 3]" "targets_of ex_test2_all 2 = [2, 3]"
  "targets_of ex_test2_last 1 = [3]" "targets_of ex_test2_last 2 = [3]"
  by (simp_all add: targets_of_def ex_test2_def ex_test2_all_def ex_test2_last_def)

lemma ex_users2:
  "(\<lambda>p. subsr_id (snd p)) ` set ex_test2 = {1, 2}"
  "(\<lambda>p. subsr_id (snd p)) ` set ex_test2_all = {1, 2}"
  "(\<lambda>p. subsr_id (snd p)) ` set ex_test2_last = {1, 2}"
  by (auto simp: ex_test2_def ex_test2_all_def ex_test2_last_def)

lemma ex_pivot_ties: "pivot ex_train_ties = Inr ex_matrix_ties"
  by (simp add: pivot_def ex_train_ties_def ex_matrix_ties_def pair_of_def upto.simps)

lemma ex_unrated_ties: "user_unrated (score_matrix ex_model_ties) 1 = [1..65]"
  by (simp add: ex_model_ties_def ex_matrix_ties_def user_unrated_def user_rated_def
      ex_train_ties_def pair_of_def upto.simps)

lemma ex_predict_ties: "predict ex_model_ties 1 i = 1 / 2"
  by (cases "i = 66")
    (simp_all add: predict_def estimate_def knows_user_def knows_item_def global_mean_def
      np_mean_def ex_model_ties_def fit_def ex_sgd_def dot_def clip_def)

lemma ex_result_ties:
  "zip [1..65] (map (predict ex_model_ties 1) [1..65]) = map (\<lambda>i. (i, 1 / 2)) [1..65]"
  by (simp add: ex_predict_ties zip_map2 zip_same_conv_map)

lemma ex_argsort_ties:
  "argsort ex_tie_order (replicate 65 (1 / 2)) = [1..<14] @ [16..<65] @ [14, 15, 0]"
  by (simp add: argsort_def ex_tie_order_def upt_rec less_eq_prod_def)

lemma ex_top_ties:
  "top_N_of ex_tie_order ex_model_ties 1 3 = [(65, 1 / 2), (50, 1 / 2), (51, 1 / 2)]"
proof -
  let ?res = "map (\<lambda>i. (i, 1 / 2 :: real)) [1..65]"
  have vs: "rev (map snd ?res) = replicate 65 (1 / 2)"
    by (simp add: comp_def map_replicate_const)
  have nth: "rev ?res ! j = (65 - int j, 1 / 2)" if "j < 65" for j
  proof -
    have "[1..65] ! (64 - j) = 1 + int (64 - j)" by (rule nth_upto) (use that in simp)
    then show ?thesis using that by (simp add: rev_nth)
  qed
  have "sort_values_desc ex_tie_order ?res
      = rev (map (\<lambda>j. rev ?res ! j) ([1..<14] @ [16..<65] @ [14, 15, 0]))"
    by (simp only: sort_values_desc_eq vs ex_argsort_ties)
  also have "\<dots> = [rev ?res ! 0, rev ?res ! 15, rev ?res ! 14]
                    @ rev (map (\<lambda>j. rev ?res ! j) ([1..<14] @ [16..<65]))"
    by simp
  finally have "take 3 (sort_values_desc ex_tie_order ?res) = [rev ?res ! 0, rev ?res ! 15, rev ?res ! 14]"
    by simp
  also have "\<dots> = [(65, 1 / 2), (50, 1 / 2), (51, 1 / 2)]"
    by (simp only: nth) simp
  finally show ?thesis
    by (simp add: top_N_of_def ex_unrated_ties ex_result_ties slice_to_def Let_def)
qed

subsection \<open>The recommender\<close>



text \<open>
  C5, as the code has it. For a subscriber who is a row of the rating matrix and any
  \<open>N\<close>, whatever order the sort leaves equal keys in, the list \<open>recommend\<close>
  returns pairs each program with its predicted score and is in descending order of
  score. Programs of equal score need not be in ascending order of program id: with
  65 candidates of one score and a tie order that puts three positions last, the
  first three programs are 65, 50 and 51.
\<close>

theorem recommend_sorted:
  assumes known: "u \<in> set (sm_index (score_matrix self))"
  shows "\<exists>top_N. recommend tie_order self u N = Inr top_N
     \<and> (\<forall>p \<in> set top_N. snd p = predict self u (fst p))
     \<and> sorted_wrt (\<lambda>a b. snd b \<le> snd a) top_N"
proof -
  let ?un = "user_unrated (score_matrix self) u"
  let ?res = "zip ?un (map (predict self u) ?un)"
  let ?top = "slice_to N (sort_values_desc tie_order ?res)"
  have rec: "recommend tie_order self u N = Inr ?top"
    using known by (simp add: recommend_def top_N_of_def Let_def)
  have "sorted_wrt (\<lambda>a b. snd b \<le> snd a) (sort_values_desc tie_order ?res)"
    by (rule descending_sort_values_desc)
  then have srt: "sorted_wrt (\<lambda>a b. snd b \<le> snd a) ?top"
    by (rule sorted_wrt_slice_to)
  have "\<forall>p \<in> set ?res. snd p = predict self u (fst p)"
    by (auto simp: in_set_zip)
  moreover have "set ?top \<subseteq> set ?res"
    using set_slice_to[of N "sort_values_desc tie_order ?res"] by simp
  ultimately have sc: "\<forall>p \<in> set ?top. snd p = predict self u (fst p)" by blast
  from rec sc srt show ?thesis by blast
qed

theorem recommend_sorted_witness:
  "2 \<in> set (sm_index (score_matrix ex_model))
   \<and> recommend ex_keep_order ex_model 2 10 = Inr [(2, 8 / 15), (3, 8 / 15)]
   \<and> (\<exists>top_N. recommend ex_keep_order ex_model 2 10 = Inr top_N
     \<and> (\<forall>p \<in> set top_N. snd p = predict ex_model 2 (fst p))
     \<and> sorted_wrt (\<lambda>a b. snd b \<le> snd a) top_N)"
proof -
  have known: "2 \<in> set (sm_index (score_matrix ex_model))" by (simp add: ex_index)
  then have val: "recommend ex_keep_order ex_model 2 10 = Inr [(2, 8 / 15), (3, 8 / 15)]"
    by (simp add: recommend_def ex_top_2_10)
  from recommend_sorted[OF known, of ex_keep_order 10] known val
  show ?thesis by blast
qed

theorem recommend_ties_counterexample:
  "pivot ex_train_ties = Inr (score_matrix ex_model_ties)
   \<and> recommend ex_tie_order ex_model_ties 1 3 = Inr [(65, 1 / 2), (50, 1 / 2), (51, 1 / 2)]
   \<and> \<not> sorted_wrt (\<lambda>a b. snd b < snd a \<or> (snd a = snd b \<and> fst a < fst b))
         [(65 :: int, 1 / 2 :: real), (50, 1 / 2), (51, 1 / 2)]"
  by (simp add: ex_pivot_ties recommend_def ex_top_ties) (simp add: ex_model_ties_def ex_matrix_ties_def)

text \<open>
  C8, as the code has it. For a subscriber who is not a row of the rating matrix, that
  is, who has no row in \<open>train\<close>, \<open>recommend\<close> raises \<open>KeyError\<close>: it computes
  no rated set and no candidates.
\<close>

theorem recommend_unknown_user:
  assumes "pivot train = Inr (score_matrix self)"
    and "u \<notin> subsr_id ` set train"
  shows "recommend tie_order self u N = Inl KeyError"
proof -
  have "sm_index (score_matrix self) = sort (remdups (map subsr_id train))"
    using assms(1) by (rule pivot_Inr(2))
  then have "u \<notin> set (sm_index (score_matrix self))"
    using assms(2) by simp
  then show ?thesis by (simp add: recommend_def)
qed

theorem recommend_unknown_user_witness:
  "pivot ex_train = Inr (score_matrix ex_model) \<and> 9 \<notin> subsr_id ` set ex_train
   \<and> recommend ex_keep_order ex_model 9 10 = Inl KeyError"
proof -
  have unknown: "9 \<notin> subsr_id ` set ex_train" by (simp add: ex_train_def)
  from recommend_unknown_user[OF ex_score_matrix unknown, of ex_keep_order 10]
    ex_score_matrix unknown
  show ?thesis by blast
qed

theorem recommend_unknown_user_counterexample:
  "init ex_sgd ex_train ex_test = Inr ex_model
   \<and> 9 \<notin> set (sm_index (score_matrix ex_model))
   \<and> recommend ex_keep_order ex_model 9 10 = Inl KeyError"
  by (simp add: ex_init ex_index recommend_def)

subsection \<open>The split\<close>

text \<open>
  C2. When at least two interactions have a rating and the generator's permutation
  is a permutation of the range, the split succeeds. The test rows are distinct rows
  of the rated interactions, a quarter of them (rounded up). \<open>train\<close> has the rows of
  \<open>rating\<close>, the rating set to missing at exactly the labels of the test rows. The
  rated rows of \<open>train\<close> and the test rows together are the rated rows of \<open>rating\<close>,
  and share no row.
\<close>

theorem split_rating_masks:
  assumes perm: "\<And>n. mset (permutation n) = mset [0..<n]"
    and two: "2 \<le> length (dropna (enumerate 0 rating))"
  shows "\<exists>train test. split_rating permutation rating = Inr (train, test)
      \<and> set test \<subseteq> set (dropna (enumerate 0 rating))
      \<and> distinct test
      \<and> length test = nat \<lceil>(1 / 4) * real (length (dropna (enumerate 0 rating)))\<rceil>
      \<and> length train = length rating
      \<and> (\<forall>l < length rating.
            train ! l = (if l \<in> fst ` set test then (rating ! l)\<lparr>use_tms_ratio := NaN\<rparr>
                         else rating ! l))
      \<and> set (dropna (enumerate 0 train)) \<union> set test = set (dropna (enumerate 0 rating))
      \<and> set (dropna (enumerate 0 train)) \<inter> set test = {}"
proof -
  let ?df = "dropna (enumerate 0 rating)"
  define test where "test = map (\<lambda>i. ?df ! i) (take ((length ?df + 3) div 4) (permutation (length ?df)))"
  define train where "train = map (\<lambda>(l, r). if l \<in> set (map fst test) then r\<lparr>use_tms_ratio := NaN\<rparr> else r)
                      (enumerate 0 rating)"
  note s = split_rating_Inr[of permutation rating, OF perm[of "length ?df"] two,
      folded test_def, folded train_def]
  have len: "length train = length rating" by (simp add: train_def)
  have nth: "\<forall>l < length rating.
            train ! l = (if l \<in> fst ` set test then (rating ! l)\<lparr>use_tms_ratio := NaN\<rparr>
                         else rating ! l)"
    by (simp add: train_def nth_enumerate_eq)
  have dn: "set (dropna (enumerate 0 train)) = {p \<in> set ?df. fst p \<notin> set (map fst test)}"
    unfolding train_def by (simp only: enumerate_masked dropna_masked)
  have inj: "p \<in> set test" if "p \<in> set ?df" "fst p \<in> set (map fst test)" for p
  proof -
    from that(2) obtain q where q: "q \<in> set test" "fst q = fst p" by auto
    with s(2) have "q \<in> set ?df" by blast
    moreover obtain l r where p: "p = (l, r)" by (cases p)
    moreover obtain l' r' where q': "q = (l', r')" by (cases q)
    ultimately have "q = p"
      using that(1) q(2) by (simp add: fst_dropna_enumerate)
    with q(1) show ?thesis by simp
  qed
  have un: "set (dropna (enumerate 0 train)) \<union> set test = set ?df"
    using s(2) inj by (auto simp: dn)
  have dis: "set (dropna (enumerate 0 train)) \<inter> set test = {}"
    by (auto simp: dn)
  from s(1) s(2) s(3) s(4) len nth un dis show ?thesis
    unfolding n_test_eq by blast
qed

theorem split_rating_masks_witness:
  "2 \<le> length (dropna (enumerate 0 ex_rating))
   \<and> split_rating ex_permutation ex_rating = Inr (ex_train, ex_test)
   \<and> (\<exists>train test. split_rating ex_permutation ex_rating = Inr (train, test)
      \<and> set test \<subseteq> set (dropna (enumerate 0 ex_rating))
      \<and> distinct test
      \<and> length test = nat \<lceil>(1 / 4) * real (length (dropna (enumerate 0 ex_rating)))\<rceil>
      \<and> length train = length ex_rating
      \<and> (\<forall>l < length ex_rating.
            train ! l = (if l \<in> fst ` set test then (ex_rating ! l)\<lparr>use_tms_ratio := NaN\<rparr>
                         else ex_rating ! l))
      \<and> set (dropna (enumerate 0 train)) \<union> set test = set (dropna (enumerate 0 ex_rating))
      \<and> set (dropna (enumerate 0 train)) \<inter> set test = {})"
proof -
  have perm: "\<And>n. mset (ex_permutation n) = mset [0..<n]" by (simp add: ex_permutation_def)
  have two: "2 \<le> length (dropna (enumerate 0 ex_rating))" by (simp add: ex_dropna_length)
  from split_rating_masks[of ex_permutation ex_rating, OF perm two] two ex_split
  show ?thesis by blast
qed

text \<open>
  C9. When fewer than two interactions have a rating, the split fails: the call of
  \<open>train_test_split\<close> raises \<open>ValueError\<close> (the train part would be empty), and so
  does the task.
\<close>

theorem split_rating_too_few:
  assumes "length (dropna (enumerate 0 rating)) < 2"
  shows "split_rating permutation rating = Inl ValueError"
  using assms by (simp add: split_rating_def train_test_split_small)

theorem split_rating_too_few_witness:
  "length (dropna (enumerate 0 [\<lparr>subsr_id = 1, program_id = 1, use_tms_ratio = Fin (1 / 2)\<rparr>,
                                \<lparr>subsr_id = 1, program_id = 2, use_tms_ratio = NaN\<rparr>])) < 2
   \<and> split_rating ex_permutation [\<lparr>subsr_id = 1, program_id = 1, use_tms_ratio = Fin (1 / 2)\<rparr>,
                                  \<lparr>subsr_id = 1, program_id = 2, use_tms_ratio = NaN\<rparr>]
       = Inl ValueError"
proof -
  have few: "length (dropna (enumerate 0 [\<lparr>subsr_id = 1, program_id = 1, use_tms_ratio = Fin (1 / 2)\<rparr>,
                                \<lparr>subsr_id = 1, program_id = 2, use_tms_ratio = NaN\<rparr>])) < 2"
    by (simp add: dropna_def)
  from split_rating_too_few[OF few, of ex_permutation] few show ?thesis by blast
qed

text \<open>
  C10. Whatever the task \<open>data_preprocessing\<close> returns, the model can be built from
  it (the pivot meets no repeated pair), every subscriber of a test row is a row of
  the rating matrix, so \<open>recommend\<close> returns a list for that subscriber, and
  \<open>evaluate\<close> over the test frame raises nothing.
\<close>

theorem test_users_in_matrix:
  assumes perm: "\<And>n. mset (permutation n) = mset [0..<n]"
    and run: "data_preprocessing permutation vod_log0 cont_log0 = Inr (train, test)"
  shows "\<exists>self. init sgd train test = Inr self
     \<and> (\<forall>p \<in> set test. subsr_id (snd p) \<in> set (sm_index (score_matrix self))
                        \<and> recommend tie_order self (subsr_id (snd p)) N
                            = Inr (top_N_of tie_order self (subsr_id (snd p)) N))
     \<and> (\<exists>pr. evaluate tie_order self test N = Inr pr)"
proof -
  let ?rating = "interaction_table vod_log0 cont_log0"
  let ?df = "dropna (enumerate 0 ?rating)"
  from run have sp: "split_rating permutation ?rating = Inr (train, test)"
    by (simp add: data_preprocessing_def)
  then have two: "2 \<le> length ?df" by (rule split_rating_Inr_large)
  note s = split_rating_Inr[of permutation ?rating, OF perm[of "length ?df"] two]
  from s(1) sp have train: "train = map (\<lambda>(l, r). if l \<in> set (map fst test) then r\<lparr>use_tms_ratio := NaN\<rparr> else r)
                      (enumerate 0 ?rating)"
    and test: "test = map (\<lambda>i. ?df ! i) (take ((length ?df + 3) div 4) (permutation (length ?df)))"
    by simp_all
  have ids: "map pair_of train = map pair_of ?rating"
    unfolding train by (rule masked_ids)
  then have dist: "distinct (map pair_of train)"
    by (simp add: distinct_interaction_table)
  define sm where "sm = \<lparr>sm_index = sort (remdups (map subsr_id train)),
                sm_columns = sort (remdups (map program_id train)),
                sm_cell = (\<lambda>u i. case find (\<lambda>r. pair_of r = (u, i)) train of
                                    Some r \<Rightarrow> use_tms_ratio r
                                  | None \<Rightarrow> NaN)\<rparr>"
  have piv: "pivot train = Inr sm" using dist by (simp add: pivot_def sm_def)
  define self where "self = \<lparr>train_data = fst (dataset train test), test_data = snd (dataset train test),
       score_matrix = sm, model = fit sgd (fst (dataset train test))\<rparr>"
  have ini: "init sgd train test = Inr self"
    by (simp add: init_def piv self_def split: prod.splits)
  have users: "set (map subsr_id train) = set (map subsr_id ?rating)"
    using ids by (simp only: map_subsr_id_pair_of)
  have known: "subsr_id (snd p) \<in> set (sm_index (score_matrix self))" if "p \<in> set test" for p
  proof -
    from that s(2) test have "p \<in> set ?df" by auto
    moreover obtain l r where "p = (l, r)" by (cases p)
    ultimately have "r \<in> set ?rating" by (auto simp: fst_dropna_enumerate)
    then have "subsr_id r \<in> set (map subsr_id train)" using users by auto
    with \<open>p = (l, r)\<close> show ?thesis by (simp add: self_def sm_def)
  qed
  then have all: "\<forall>u \<in> set (drop_duplicates (map (\<lambda>p. subsr_id (snd p)) test)).
                    u \<in> set (sm_index (score_matrix self))"
    by auto
  have ev: "\<exists>pr. evaluate tie_order self test N = Inr pr"
    by (simp add: evaluate_def evaluate_loop_known[OF all])
  from ini known ev show ?thesis
    by (auto simp: recommend_def)
qed

theorem test_users_in_matrix_witness:
  "data_preprocessing ex_permutation ex_vod_log ex_cont_log = Inr (ex_train, ex_test)
   \<and> (\<exists>self. init ex_sgd ex_train ex_test = Inr self
     \<and> (\<forall>p \<in> set ex_test. subsr_id (snd p) \<in> set (sm_index (score_matrix self))
                        \<and> recommend ex_keep_order self (subsr_id (snd p)) 10
                            = Inr (top_N_of ex_keep_order self (subsr_id (snd p)) 10))
     \<and> (\<exists>pr. evaluate ex_keep_order self ex_test 10 = Inr pr))"
  using test_users_in_matrix[of ex_permutation ex_vod_log ex_cont_log ex_train ex_test ex_sgd
      ex_keep_order 10,
      OF ex_permutation_perm ex_run] ex_run
  by blast

subsection \<open>The interaction table\<close>

text \<open>
  C6, as the code has it. A watch event that is not soft-deleted, with a display
  runtime of 0 and a positive watched time, raises nothing: its (subscriber, program)
  pair is a row of the interaction table, with the rating +Infinity.
\<close>

theorem zero_runtime_gives_infinite_rating:
  assumes "r \<in> set vod_log0" and "vod_e_bool r = 0"
    and "disp_rtm_sec r = 0" and "0 < use_tms r"
  shows "\<lparr>subsr_id = vod_subsr_id r, program_id = vod_program_id r, use_tms_ratio = PosInf\<rparr>
           \<in> set (interaction_table vod_log0 cont_log0)"
proof -
  let ?vod = "filter (\<lambda>r. vod_e_bool r = 0) vod_log0"
  let ?k = "vod_key r"
  from assms(1,2) have r: "r \<in> set ?vod" by simp
  then have k: "?k \<in> set (map vod_key ?vod)" by (simp only: set_map) (rule imageI)
  have "ratio_of r = PosInf" using assms(3,4) by (simp add: ratio_of_def true_divide_def)
  with r have "PosInf \<in> set (map ratio_of (filter (\<lambda>x. vod_key x = ?k) ?vod))"
    by force
  then have "group_max ?vod ?k = PosInf"
    unfolding group_max_def by (rule foldr_fmax_PosInf)
  with map_of_groupby_max[OF k] have "map_of (groupby_max ?vod) ?k = Some PosInf" by simp
  moreover have "?k \<in> set (drop_duplicates (map vod_key ?vod @ map cont_key (filter (\<lambda>r. cont_e_bool r = 0) cont_log0)))"
    using k by simp
  ultimately show ?thesis
    by (force simp: interaction_table_def Let_def merge_left_def vod_key_def image_iff)
qed

theorem zero_runtime_gives_infinite_rating_witness:
  "hd ex_vod_log_zero \<in> set ex_vod_log_zero \<and> vod_e_bool (hd ex_vod_log_zero) = 0
   \<and> disp_rtm_sec (hd ex_vod_log_zero) = 0 \<and> 0 < use_tms (hd ex_vod_log_zero)
   \<and> \<lparr>subsr_id = 1, program_id = 10, use_tms_ratio = PosInf\<rparr>
        \<in> set (interaction_table ex_vod_log_zero [])"
proof -
  have a: "hd ex_vod_log_zero \<in> set ex_vod_log_zero" by (simp add: ex_vod_log_zero_def)
  have b: "vod_e_bool (hd ex_vod_log_zero) = 0" by (simp add: ex_vod_log_zero_def)
  have c: "disp_rtm_sec (hd ex_vod_log_zero) = 0" by (simp add: ex_vod_log_zero_def)
  have d: "0 < use_tms (hd ex_vod_log_zero)" by (simp add: ex_vod_log_zero_def)
  have "vod_subsr_id (hd ex_vod_log_zero) = 1" and "vod_program_id (hd ex_vod_log_zero) = 10"
    by (simp_all add: ex_vod_log_zero_def)
  with zero_runtime_gives_infinite_rating[OF a b c d, of "[]"] a b c d
  show ?thesis by simp
qed

theorem zero_runtime_counterexample:
  "disp_rtm_sec (hd ex_vod_log_zero) = 0
   \<and> data_preprocessing ex_permutation ex_vod_log_zero [] =
       Inr ([\<lparr>subsr_id = 1, program_id = 10, use_tms_ratio = PosInf\<rparr>,
             \<lparr>subsr_id = 1, program_id = 11, use_tms_ratio = Fin (1 / 2)\<rparr>,
             \<lparr>subsr_id = 2, program_id = 10, use_tms_ratio = NaN\<rparr>],
            [(2, \<lparr>subsr_id = 2, program_id = 10, use_tms_ratio = Fin (3 / 4)\<rparr>)])"
  by (simp add: ex_zero) (simp add: ex_vod_log_zero_def)

subsection \<open>The model\<close>

text \<open>
  C3, as the code has it. \<open>predict\<close> raises nothing and returns a number of
  [0, 1]. With a finite global mean \<open>g\<close> of the training ratings it is, clipped to
  [0, 1]: \<open>g\<close> plus both biases plus the dot product of the factors when subscriber
  and program were both seen in \<open>fit\<close>; \<open>g\<close> plus the bias of the seen one when
  only one was; \<open>g\<close> alone when neither was.
\<close>

theorem predict_value:
  assumes gm: "global_mean (model self) = Fin g"
  shows "0 \<le> predict self u i \<and> predict self u i \<le> 1
    \<and> (knows_user (model self) u \<and> knows_item (model self) i \<longrightarrow>
         predict self u i = max 0 (min 1 (g + bu (model self) u + bi (model self) i
                                            + dot (pu (model self) u) (qi (model self) i))))
    \<and> (knows_user (model self) u \<and> \<not> knows_item (model self) i \<longrightarrow>
         predict self u i = max 0 (min 1 (g + bu (model self) u)))
    \<and> (\<not> knows_user (model self) u \<and> knows_item (model self) i \<longrightarrow>
         predict self u i = max 0 (min 1 (g + bi (model self) i)))
    \<and> (\<not> knows_user (model self) u \<and> \<not> knows_item (model self) i \<longrightarrow>
         predict self u i = max 0 (min 1 g))"
  using clip_range[of "estimate (model self) u i"]
  by (simp add: predict_def estimate_def gm clip_def dot_commute[of "pu (model self) u"])

theorem predict_value_witness:
  "global_mean (model ex_model) = Fin (8 / 15)
   \<and> knows_user (model ex_model) 1 \<and> knows_item (model ex_model) 1
   \<and> predict ex_model 1 1 = 47 / 60
   \<and> \<not> knows_item (model ex_model) 3 \<and> predict ex_model 1 3 = 8 / 15
   \<and> \<not> knows_user (model ex_model) 9 \<and> predict ex_model 9 1 = 47 / 60
   \<and> predict ex_model 9 3 = 8 / 15"
  using predict_value[OF ex_global_mean, of 1 1] predict_value[OF ex_global_mean, of 1 3]
    predict_value[OF ex_global_mean, of 9 1] predict_value[OF ex_global_mean, of 9 3]
  by (simp add: ex_knows ex_bi ex_global_mean)

theorem predict_cold_start_counterexample:
  "global_mean (model ex_model) = Fin (8 / 15)
   \<and> \<not> knows_user (model ex_model) 9
   \<and> predict ex_model 9 1 = 47 / 60"
  by (simp add: ex_global_mean ex_knows predict_def estimate_def ex_bi clip_def)

subsection \<open>The evaluator\<close>

text \<open>
  C7. On a model built with an empty test frame \<open>calculate_rmse\<close> raises
  (\<open>ValueError\<close>, from \<open>accuracy.rmse\<close>). On one built with a non-empty test frame
  of finite ratings it returns the square root of the mean, over the test rows, of
  the squared difference between the row's rating and the prediction for its pair.
\<close>

theorem calculate_rmse_value:
  assumes ini: "init sgd train test = Inr self"
  shows "(test = [] \<longrightarrow> calculate_rmse self = Inl ValueError)
     \<and> (test \<noteq> [] \<and> (\<forall>p \<in> set test. use_tms_ratio (snd p) = Fin (true_r (snd p))) \<longrightarrow>
          calculate_rmse self =
            Inr (Fin (sqrt ((\<Sum>p\<leftarrow>test. (true_r (snd p)
                                  - predict self (subsr_id (snd p)) (program_id (snd p)))\<^sup>2)
                             / real (length test)))))"
proof (intro conjI impI)
  note td = init_test_data[OF ini]
  show "calculate_rmse self = Inl ValueError" if "test = []"
    using that by (simp add: calculate_rmse_def td load_from_df_def build_testset_def)
  show "calculate_rmse self =
            Inr (Fin (sqrt ((\<Sum>p\<leftarrow>test. (true_r (snd p)
                                  - predict self (subsr_id (snd p)) (program_id (snd p)))\<^sup>2)
                             / real (length test))))"
    if h: "test \<noteq> [] \<and> (\<forall>p \<in> set test. use_tms_ratio (snd p) = Fin (true_r (snd p)))"
  proof -
    let ?raw = "load_from_df (map snd test)"
    let ?h = "\<lambda>t::raw_rating. (case snd (snd t) of Fin r \<Rightarrow> r | _ \<Rightarrow> 0) - predict self (fst t) (fst (snd t))"
    have ne: "test_data self \<noteq> []"
      using h length_build_testset[of ?raw] by (auto simp: td load_from_df_def)
    have fin: "\<forall>t \<in> set (test_data self). \<exists>r. snd (snd t) = Fin r"
      using h by (auto simp: td set_build_testset load_from_df_def)
    have eq: "map (\<lambda>p. sq_err (fst p) (snd p))
            (map (\<lambda>t. (snd (snd t), predict self (fst t) (fst (snd t)))) (test_data self))
        = map Fin (map (\<lambda>t. (?h t)\<^sup>2) (test_data self))"
      using fin by (auto simp: comp_def)
    have "calculate_rmse self
        = Inr (np_sqrt (np_mean (map (\<lambda>p. sq_err (fst p) (snd p))
            (map (\<lambda>t. (snd (snd t), predict self (fst t) (fst (snd t)))) (test_data self)))))"
      using ne by (simp add: calculate_rmse_def Let_def del: map_map)
    also have "\<dots> = Inr (np_sqrt (np_mean (map Fin (map (\<lambda>t. (?h t)\<^sup>2) (test_data self)))))"
      by (simp only: eq)
    also have "np_mean (map Fin (map (\<lambda>t. (?h t)\<^sup>2) (test_data self)))
        = Fin (sum_list (map (\<lambda>t. (?h t)\<^sup>2) (test_data self))
                 / real (length (map (\<lambda>t. (?h t)\<^sup>2) (test_data self))))"
      by (rule np_mean_Fin) (simp add: ne)
    also have "length (map (\<lambda>t. (?h t)\<^sup>2) (test_data self)) = length (test_data self)"
      by simp
    also have "sum_list (map (\<lambda>t. (?h t)\<^sup>2) (test_data self)) = sum_list (map (\<lambda>t. (?h t)\<^sup>2) ?raw)"
      unfolding td by (rule sum_list_build_testset)
    also have "length (test_data self) = length test"
      by (simp add: td length_build_testset load_from_df_def)
    also have "sum_list (map (\<lambda>t. (?h t)\<^sup>2) ?raw)
        = (\<Sum>p\<leftarrow>test. (true_r (snd p) - predict self (subsr_id (snd p)) (program_id (snd p)))\<^sup>2)"
      using h by (auto simp: load_from_df_def comp_def intro!: arg_cong[where f=sum_list])
    finally have val: "calculate_rmse self =
        Inr (np_sqrt (Fin ((\<Sum>p\<leftarrow>test. (true_r (snd p)
                                  - predict self (subsr_id (snd p)) (program_id (snd p)))\<^sup>2)
                             / real (length test))))" .
    have "0 \<le> (\<Sum>p\<leftarrow>test. (true_r (snd p)
                    - predict self (subsr_id (snd p)) (program_id (snd p)))\<^sup>2)"
      by (rule sum_list_nonneg) auto
    then have "0 \<le> (\<Sum>p\<leftarrow>test. (true_r (snd p)
                    - predict self (subsr_id (snd p)) (program_id (snd p)))\<^sup>2) / real (length test)"
      by simp
    then show ?thesis by (simp add: val not_less[symmetric])
  qed
qed

theorem calculate_rmse_value_witness:
  "init ex_sgd ex_train [] = Inr ex_model_no_test
   \<and> calculate_rmse ex_model_no_test = Inl ValueError
   \<and> init ex_sgd ex_train ex_test = Inr ex_model
   \<and> ex_test \<noteq> []
   \<and> calculate_rmse ex_model = Inr (Fin (4 / 15))"
proof -
  have a: "calculate_rmse ex_model_no_test = Inl ValueError"
    using calculate_rmse_value[OF ex_init_no_test] by simp
  have ne: "ex_test \<noteq> []" by (simp add: ex_test_def)
  have fin: "\<forall>p \<in> set ex_test. use_tms_ratio (snd p)
               = Fin ((\<lambda>r. case use_tms_ratio r of Fin x \<Rightarrow> x | _ \<Rightarrow> 0) (snd p))"
    by (simp add: ex_test_def)
  from calculate_rmse_value[OF ex_init, of "\<lambda>r. case use_tms_ratio r of Fin x \<Rightarrow> x | _ \<Rightarrow> 0"] ne fin
  have "calculate_rmse ex_model =
          Inr (Fin (sqrt ((\<Sum>p\<leftarrow>ex_test. ((case use_tms_ratio (snd p) of Fin x \<Rightarrow> x | _ \<Rightarrow> 0)
                                  - predict ex_model (subsr_id (snd p)) (program_id (snd p)))\<^sup>2)
                             / real (length ex_test))))"
    by blast
  also have "\<dots> = Inr (Fin (sqrt ((4 / 15)\<^sup>2)))"
    by (simp add: ex_test_def ex_predict_1_3)
  also have "\<dots> = Inr (Fin (4 / 15))"
    by (simp only: real_sqrt_abs) simp
  finally have b: "calculate_rmse ex_model = Inr (Fin (4 / 15))" .
  from a b ne ex_init ex_init_no_test show ?thesis by blast
qed

text \<open>
  C4. \<open>precision_recall_at_k\<close> returns the number of common elements over the
  length of the prediction list (0 for an empty list) and over the length of the
  targets (0 for no targets). For a non-empty test frame whose subscribers are rows
  of the matrix, \<open>evaluate\<close> returns the two means of these values over the set of
  subscribers of the test frame, each subscriber counted once however many rows the
  frame has for it; both lie in [0, 1], both are 0 when every subscriber's
  predictions miss all its targets, and both are 1 when every subscriber's
  predictions are exactly its (distinct) targets.
\<close>

theorem evaluate_precision_recall:
  fixes N :: int and tie_order :: tie_order
  assumes piv: "pivot train = Inr (score_matrix self)"
    and ne: "test \<noteq> []"
    and known: "\<forall>p \<in> set test. subsr_id (snd p) \<in> set (sm_index (score_matrix self))"
  defines "S \<equiv> (\<lambda>p. subsr_id (snd p)) ` set test"
  defines "pr \<equiv> (\<lambda>u. precision_recall_at_k (targets_of test u)
                         (map fst (top_N_of tie_order self u N)))"
  shows "fst (precision_recall_at_k target prediction)
           = (if prediction = [] then 0
              else real (card (set target \<inter> set prediction)) / real (length prediction))
    \<and> snd (precision_recall_at_k target prediction)
           = (if target = [] then 0
              else real (card (set target \<inter> set prediction)) / real (length target))
    \<and> (\<exists>P R. evaluate tie_order self test N = Inr (Fin P, Fin R)
          \<and> P = (\<Sum>u \<in> S. fst (pr u)) / real (card S)
          \<and> R = (\<Sum>u \<in> S. snd (pr u)) / real (card S)
          \<and> 0 \<le> P \<and> P \<le> 1 \<and> 0 \<le> R \<and> R \<le> 1
          \<and> ((\<forall>u \<in> S. set (map fst (top_N_of tie_order self u N)) \<inter> set (targets_of test u) = {})
                \<longrightarrow> P = 0 \<and> R = 0)
          \<and> ((\<forall>u \<in> S. set (map fst (top_N_of tie_order self u N)) = set (targets_of test u)
                                  \<and> distinct (targets_of test u))
                \<longrightarrow> P = 1 \<and> R = 1))"
proof -
  define users where "users = drop_duplicates (map (\<lambda>p. subsr_id (snd p)) test)"
  let ?ps = "map (\<lambda>u. fst (pr u)) users"
  let ?rs = "map (\<lambda>u. snd (pr u)) users"
  have dist: "distinct users" and sets: "set users = S"
    by (simp_all add: users_def S_def)
  have len: "length users = card S"
    using dist sets by (metis distinct_card)
  have sumP: "sum_list ?ps = (\<Sum>u \<in> S. fst (pr u))"
    using dist sets by (metis sum_list_distinct_conv_sum_set)
  have sumR: "sum_list ?rs = (\<Sum>u \<in> S. snd (pr u))"
    using dist sets by (metis sum_list_distinct_conv_sum_set)
  have one: "fst (precision_recall_at_k target prediction)
           = (if prediction = [] then 0
              else real (card (set target \<inter> set prediction)) / real (length prediction))"
    by (simp add: precision_recall_at_k_def Let_def Int_commute)
  have two: "snd (precision_recall_at_k target prediction)
           = (if target = [] then 0
              else real (card (set target \<inter> set prediction)) / real (length target))"
    by (simp add: precision_recall_at_k_def Let_def Int_commute)
  have une: "users \<noteq> []" using ne sets by (cases test) (auto simp: S_def)
  have all: "\<forall>u \<in> set users. u \<in> set (sm_index (score_matrix self))"
    using known by (auto simp: sets S_def)
  have ev: "evaluate tie_order self test N = Inr (Fin (sum_list ?ps / real (length users)),
                                                  Fin (sum_list ?rs / real (length users)))"
  proof -
    have "evaluate_loop tie_order self test N users = Inr (?ps, ?rs)"
      unfolding pr_def by (rule evaluate_loop_known[OF all])
    then have "evaluate tie_order self test N = Inr (np_mean (map Fin ?ps), np_mean (map Fin ?rs))"
      by (simp add: evaluate_def users_def[symmetric])
    moreover have "np_mean (map Fin ?ps) = Fin (sum_list ?ps / real (length ?ps))"
      by (rule np_mean_Fin) (simp add: une)
    moreover have "np_mean (map Fin ?rs) = Fin (sum_list ?rs / real (length ?rs))"
      by (rule np_mean_Fin) (simp add: une)
    ultimately show ?thesis by simp
  qed
  have rng: "\<forall>x \<in> set ?ps. 0 \<le> x \<and> x \<le> 1" "\<forall>x \<in> set ?rs. 0 \<le> x \<and> x \<le> 1"
    by (auto simp: pr_def precision_recall_range)
  have pne: "?ps \<noteq> []" "?rs \<noteq> []" using une by simp_all
  have bP: "0 \<le> sum_list ?ps / real (length users)" "sum_list ?ps / real (length users) \<le> 1"
    using mean_range[OF pne(1) rng(1)] by simp_all
  have bR: "0 \<le> sum_list ?rs / real (length users)" "sum_list ?rs / real (length users) \<le> 1"
    using mean_range[OF pne(2) rng(2)] by simp_all
  have zero: "sum_list ?ps / real (length users) = 0 \<and> sum_list ?rs / real (length users) = 0"
    if "\<forall>u \<in> S. set (map fst (top_N_of tie_order self u N)) \<inter> set (targets_of test u) = {}"
  proof -
    from that have "\<forall>u \<in> set users. pr u = (0, 0)"
      by (simp add: pr_def precision_recall_disjoint sets)
    then have "\<forall>x \<in> set ?ps. x = 0" "\<forall>x \<in> set ?rs. x = 0" by auto
    then show ?thesis
      using mean_const[OF pne(1), of 0] mean_const[OF pne(2), of 0] by simp
  qed
  have full: "sum_list ?ps / real (length users) = 1 \<and> sum_list ?rs / real (length users) = 1"
    if h: "\<forall>u \<in> S. set (map fst (top_N_of tie_order self u N)) = set (targets_of test u)
                                  \<and> distinct (targets_of test u)"
  proof -
    have "pr u = (1, 1)" if "u \<in> set users" for u
      unfolding pr_def
    proof (rule precision_recall_equal)
      from that have uS: "u \<in> S" by (simp add: sets)
      show "set (map fst (top_N_of tie_order self u N)) = set (targets_of test u)"
        using h uS by blast
      show "distinct (map fst (top_N_of tie_order self u N))" by (rule distinct_top_N_of[OF piv])
      show "distinct (targets_of test u)" using h uS by blast
      show "targets_of test u \<noteq> []" using uS by (intro targets_nonempty) (simp add: S_def)
    qed
    then have "\<forall>x \<in> set ?ps. x = 1" "\<forall>x \<in> set ?rs. x = 1" by auto
    then show ?thesis
      using mean_const[OF pne(1), of 1] mean_const[OF pne(2), of 1] by simp
  qed
  from ev bP bR zero full have "\<exists>P R. evaluate tie_order self test N = Inr (Fin P, Fin R)
          \<and> P = (\<Sum>u \<in> S. fst (pr u)) / real (card S)
          \<and> R = (\<Sum>u \<in> S. snd (pr u)) / real (card S)
          \<and> 0 \<le> P \<and> P \<le> 1 \<and> 0 \<le> R \<and> R \<le> 1
          \<and> ((\<forall>u \<in> S. set (map fst (top_N_of tie_order self u N)) \<inter> set (targets_of test u) = {})
                \<longrightarrow> P = 0 \<and> R = 0)
          \<and> ((\<forall>u \<in> S. set (map fst (top_N_of tie_order self u N)) = set (targets_of test u)
                                  \<and> distinct (targets_of test u))
                \<longrightarrow> P = 1 \<and> R = 1)"
    unfolding len sumP sumR by blast
  with one two show ?thesis by blast
qed

theorem evaluate_precision_recall_witness:
  "pivot ex_train2 = Inr (score_matrix ex_model2) \<and> ex_test2 \<noteq> []
   \<and> evaluate ex_keep_order ex_model2 ex_test2 10 = Inr (Fin (3 / 4), Fin 1)
   \<and> evaluate ex_keep_order ex_model2 ex_test2_all 10 = Inr (Fin 1, Fin 1)
   \<and> evaluate ex_keep_order ex_model2 ex_test2_last 1 = Inr (Fin 0, Fin 0)"
proof -
  have ne: "ex_test2 \<noteq> []" "ex_test2_all \<noteq> []" "ex_test2_last \<noteq> []"
    by (simp_all add: ex_test2_def ex_test2_all_def ex_test2_last_def)
  have known:
    "\<forall>p \<in> set ex_test2. subsr_id (snd p) \<in> set (sm_index (score_matrix ex_model2))"
    "\<forall>p \<in> set ex_test2_all. subsr_id (snd p) \<in> set (sm_index (score_matrix ex_model2))"
    "\<forall>p \<in> set ex_test2_last. subsr_id (snd p) \<in> set (sm_index (score_matrix ex_model2))"
    by (simp_all add: ex_test2_def ex_test2_all_def ex_test2_last_def ex_index2)
  from evaluate_precision_recall[OF ex_pivot2 ne(1) known(1), of "[]" "[]" ex_keep_order 10]
  obtain P R where "evaluate ex_keep_order ex_model2 ex_test2 10 = Inr (Fin P, Fin R)"
    and "P = (\<Sum>u \<in> (\<lambda>p. subsr_id (snd p)) ` set ex_test2.
                fst (precision_recall_at_k (targets_of ex_test2 u)
                       (map fst (top_N_of ex_keep_order ex_model2 u 10))))
             / real (card ((\<lambda>p. subsr_id (snd p)) ` set ex_test2))"
    and "R = (\<Sum>u \<in> (\<lambda>p. subsr_id (snd p)) ` set ex_test2.
                snd (precision_recall_at_k (targets_of ex_test2 u)
                       (map fst (top_N_of ex_keep_order ex_model2 u 10))))
             / real (card ((\<lambda>p. subsr_id (snd p)) ` set ex_test2))"
    by blast
  then have a: "evaluate ex_keep_order ex_model2 ex_test2 10 = Inr (Fin (3 / 4), Fin 1)"
    by (simp add: ex_users2 ex_targets2 ex_top2 precision_recall_at_k_def)
  have eq: "\<forall>u \<in> (\<lambda>p. subsr_id (snd p)) ` set ex_test2_all.
              set (map fst (top_N_of ex_keep_order ex_model2 u 10)) = set (targets_of ex_test2_all u)
              \<and> distinct (targets_of ex_test2_all u)"
    by (simp add: ex_users2 ex_top2 ex_targets2)
  from evaluate_precision_recall[OF ex_pivot2 ne(2) known(2), of "[]" "[]" ex_keep_order 10]
  obtain P' R' where "evaluate ex_keep_order ex_model2 ex_test2_all 10 = Inr (Fin P', Fin R')"
    and "(\<forall>u \<in> (\<lambda>p. subsr_id (snd p)) ` set ex_test2_all.
              set (map fst (top_N_of ex_keep_order ex_model2 u 10)) = set (targets_of ex_test2_all u)
              \<and> distinct (targets_of ex_test2_all u)) \<longrightarrow> P' = 1 \<and> R' = 1"
    by blast
  with eq have b: "evaluate ex_keep_order ex_model2 ex_test2_all 10 = Inr (Fin 1, Fin 1)" by blast
  have dis: "\<forall>u \<in> (\<lambda>p. subsr_id (snd p)) ` set ex_test2_last.
              set (map fst (top_N_of ex_keep_order ex_model2 u 1)) \<inter> set (targets_of ex_test2_last u) = {}"
    by (simp add: ex_users2 ex_top2 ex_targets2)
  from evaluate_precision_recall[OF ex_pivot2 ne(3) known(3), of "[]" "[]" ex_keep_order 1]
  obtain P'' R'' where "evaluate ex_keep_order ex_model2 ex_test2_last 1 = Inr (Fin P'', Fin R'')"
    and "(\<forall>u \<in> (\<lambda>p. subsr_id (snd p)) ` set ex_test2_last.
              set (map fst (top_N_of ex_keep_order ex_model2 u 1)) \<inter> set (targets_of ex_test2_last u) = {})
          \<longrightarrow> P'' = 0 \<and> R'' = 0"
    by blast
  with dis have c: "evaluate ex_keep_order ex_model2 ex_test2_last 1 = Inr (Fin 0, Fin 0)" by blast
  from a b c ne(1) ex_pivot2 show ?thesis by blast
qed

end
